theory Spec2Isabelle
  imports Complex_Main "HOL-Library.Sublist" "HOL-Library.Extended_Nat"
begin

section \<open>JavaScript strings\<close>

text \<open>
  A JavaScript string is a sequence of code units. The model uses \<open>string\<close>, a list of
  8-bit characters, so it covers the strings whose code units lie in the Latin-1 range
  (0 to 255); the character classes below are the ECMAScript ones restricted to that
  range.
\<close>

definition isWhiteSpace :: "char \<Rightarrow> bool" where
  \<comment> \<open>\<open>\s\<close> and what \<open>String.prototype.trim\<close> strips: TAB, LF, VT, FF, CR, SP, NBSP.\<close>
  "isWhiteSpace c = (c \<in> set [CHR 0x09, CHR 0x0A, CHR 0x0B, CHR 0x0C, CHR 0x0D, CHR 0x20, CHR 0xA0])"

definition isDigit :: "char \<Rightarrow> bool" where
  \<comment> \<open>\<open>\d\<close>\<close>
  "isDigit c = (48 \<le> (of_char c :: nat) \<and> (of_char c :: nat) \<le> 57)"

definition isUpper :: "char \<Rightarrow> bool" where
  \<comment> \<open>\<open>[A-Z]\<close>\<close>
  "isUpper c = (65 \<le> (of_char c :: nat) \<and> (of_char c :: nat) \<le> 90)"

definition isLower :: "char \<Rightarrow> bool" where
  \<comment> \<open>\<open>[a-z]\<close>\<close>
  "isLower c = (97 \<le> (of_char c :: nat) \<and> (of_char c :: nat) \<le> 122)"

definition isLetter :: "char \<Rightarrow> bool" where
  \<comment> \<open>\<open>[A-Z]\<close> under the \<open>i\<close> flag\<close>
  "isLetter c = (isUpper c \<or> isLower c)"

definition isWordChar :: "char \<Rightarrow> bool" where
  \<comment> \<open>\<open>\w\<close>, which decides \<open>\b\<close>\<close>
  "isWordChar c = (isLetter c \<or> isDigit c \<or> c = CHR ''_'')"

definition isSep :: "char \<Rightarrow> bool" where
  \<comment> \<open>the class \<open>[.\):\s]\<close>\<close>
  "isSep c = (c = CHR ''.'' \<or> c = CHR '')'' \<or> c = CHR '':'' \<or> isWhiteSpace c)"

definition toLowerChar :: "char \<Rightarrow> char" where
  \<comment> \<open>\<open>toLowerCase\<close> on one Latin-1 code unit: A-Z, and U+00C0 to U+00DE but U+00D7\<close>
  "toLowerChar c =
     (let n = (of_char c :: nat)
      in if (65 \<le> n \<and> n \<le> 90) \<or> (192 \<le> n \<and> n \<le> 222 \<and> n \<noteq> 215)
         then char_of (n + 32) else c)"

definition toLowerCase :: "string \<Rightarrow> string" where
  "toLowerCase s = map toLowerChar s"

definition trim :: "string \<Rightarrow> string" where
  "trim s = rev (dropWhile isWhiteSpace (rev (dropWhile isWhiteSpace s)))"

fun includes_str :: "string \<Rightarrow> string \<Rightarrow> bool" where
  \<comment> \<open>\<open>s.includes(t)\<close>: \<open>t\<close> occurs in \<open>s\<close> as a contiguous run\<close>
  "includes_str [] t = (t = [])"
| "includes_str (c # cs) t = (prefix t (c # cs) \<or> includes_str cs t)"

section \<open>The answer resolver of the page script (validator.js)\<close>

type_synonym element = nat

record opt =
  otext :: string
  oelement :: element
  ovalue :: string

subsection \<open>levenshteinDistance\<close>

text \<open>
  The source fills a matrix with one row per character of \<open>b\<close> and one column per
  character of \<open>a\<close>. Row 0 is \<open>[0, 1, .., a.length]\<close>; every later row starts with its
  index. \<open>fillRow\<close> computes the cells \<open>1 .. a.length\<close> of the row of \<open>bc\<close> from the row
  above (\<open>prev\<close>, read from the column to the left on) and the cell just written to the
  left. The row above has one cell more than \<open>a\<close> has characters, so the last case of
  \<open>fillRow\<close> is never taken.
\<close>

fun fillRow :: "char \<Rightarrow> string \<Rightarrow> nat list \<Rightarrow> nat \<Rightarrow> nat list" where
  "fillRow bc [] prev left = []"
| "fillRow bc (ac # as) prev left =
     (case prev of
        diag # up # rest \<Rightarrow>
          (let v = (if bc = ac then diag
                    else min (min (diag + 1) (left + 1)) (up + 1))
           in v # fillRow bc as (up # rest) v)
      | _ \<Rightarrow> [])"

fun levRows :: "string \<Rightarrow> nat \<Rightarrow> string \<Rightarrow> nat list \<Rightarrow> nat list" where
  \<comment> \<open>the outer loop: \<open>i\<close> is the index of the row being written, \<open>prev\<close> the row above\<close>
  "levRows a i [] prev = prev"
| "levRows a i (bc # bs) prev = levRows a (Suc i) bs (i # fillRow bc a prev i)"

definition levenshteinDistance :: "string \<Rightarrow> string \<Rightarrow> nat" where
  "levenshteinDistance a b = last (levRows a 1 b [0..<Suc (length a)])"

text \<open>
  The edit distance the matrix is meant to compute, stated on its own: \<open>edits a b n\<close> says
  that \<open>a\<close> is turned into \<open>b\<close> by a script of \<open>n\<close> insertions, deletions and substitutions of
  single characters; the distance is the least such \<open>n\<close>. \<open>editDistance\<close> is the usual
  recursion for it.
\<close>

inductive edits :: "string \<Rightarrow> string \<Rightarrow> nat \<Rightarrow> bool" where
  edits_nil: "edits [] [] 0"
| edits_keep: "edits xs ys n \<Longrightarrow> edits (c # xs) (c # ys) n"
| edits_delete: "edits xs ys n \<Longrightarrow> edits (x # xs) ys (Suc n)"
| edits_insert: "edits xs ys n \<Longrightarrow> edits xs (y # ys) (Suc n)"
| edits_substitute: "edits xs ys n \<Longrightarrow> edits (x # xs) (y # ys) (Suc n)"

fun editDistance :: "string \<Rightarrow> string \<Rightarrow> nat" where
  "editDistance [] ys = length ys"
| "editDistance (x # xs) [] = Suc (length xs)"
| "editDistance (x # xs) (y # ys) =
     min (editDistance xs ys + (if x = y then 0 else 1))
         (min (editDistance xs (y # ys) + 1) (editDistance (x # xs) ys + 1))"

definition matrixRow :: "string \<Rightarrow> string \<Rightarrow> string \<Rightarrow> nat list" where
  \<comment> \<open>what the row of the matrix for the prefix \<open>bs\<close> of \<open>b\<close> should hold, from the column of
      the prefix \<open>a1\<close> of \<open>a\<close> on, \<open>a2\<close> being the rest of \<open>a\<close>\<close>
  "matrixRow a1 a2 bs = map (\<lambda>k. editDistance (a1 @ take k a2) bs) [0..<Suc (length a2)]"

subsection \<open>findMatchingOption\<close>

datatype tier = Exact | Substring | Letter | Fuzzy

definition letterMatch :: "string \<Rightarrow> nat option" where
  \<comment> \<open>\<open>answer.match(/^([A-D])[.\):\s]/i)\<close>, then the letter, upper-cased, minus \<open>'A'\<close>\<close>
  "letterMatch answer =
     (case answer of
        c # s # _ \<Rightarrow>
          if c \<in> set ''ABCD'' \<and> isSep s then Some ((of_char c :: nat) - 65)
          else if c \<in> set ''abcd'' \<and> isSep s then Some ((of_char c :: nat) - 97)
          else None
      | _ \<Rightarrow> None)"

fun fuzzyLoop :: "string \<Rightarrow> opt list \<Rightarrow> opt option \<times> enat \<Rightarrow> opt option \<times> enat" where
  \<comment> \<open>the state is \<open>(bestMatch, bestScore)\<close>; it starts as \<open>(null, Infinity)\<close>\<close>
  "fuzzyLoop cleanAnswer [] st = st"
| "fuzzyLoop cleanAnswer (option # rest) (bestMatch, bestScore) =
     (let distance = levenshteinDistance cleanAnswer (trim (toLowerCase (otext option)))
      in if enat distance < bestScore
         then fuzzyLoop cleanAnswer rest (Some option, enat distance)
         else fuzzyLoop cleanAnswer rest (bestMatch, bestScore))"

definition belowThreshold :: "enat \<Rightarrow> nat \<Rightarrow> bool" where
  \<comment> \<open>\<open>bestScore < n * 0.4\<close>. For an integer score \<open>d\<close> and a length \<open>n\<close> the double
      comparison agrees with \<open>5 * d < 2 * n\<close>: \<open>n * 0.4\<close> rounds to the integer \<open>2n/5\<close>
      when 5 divides \<open>n\<close> and lies strictly between two integers otherwise.\<close>
  "belowThreshold bestScore n =
     (case bestScore of enat d \<Rightarrow> 5 * d < 2 * n | \<infinity> \<Rightarrow> False)"

definition exactTier :: "opt list \<Rightarrow> string \<Rightarrow> opt option" where
  "exactTier options answer =
     (let cleanAnswer = trim (toLowerCase answer)
      in find (\<lambda>option. trim (toLowerCase (otext option)) = cleanAnswer) options)"

definition partialTier :: "opt list \<Rightarrow> string \<Rightarrow> opt option" where
  "partialTier options answer =
     (let cleanAnswer = trim (toLowerCase answer)
      in find (\<lambda>option.
           let cleanOption = trim (toLowerCase (otext option))
           in includes_str cleanOption cleanAnswer \<or> includes_str cleanAnswer cleanOption)
         options)"

definition letterTier :: "opt list \<Rightarrow> string \<Rightarrow> opt option" where
  "letterTier options answer =
     (case letterMatch answer of
        Some index \<Rightarrow> if index < length options then Some (options ! index) else None
      | None \<Rightarrow> None)"

definition fuzzyTier :: "opt list \<Rightarrow> string \<Rightarrow> opt option" where
  "fuzzyTier options answer =
     (let cleanAnswer = trim (toLowerCase answer);
          (bestMatch, bestScore) = fuzzyLoop cleanAnswer options (None, \<infinity>)
      in if belowThreshold bestScore
              (max (length cleanAnswer)
                   (case bestMatch of Some m \<Rightarrow> length (otext m) | None \<Rightarrow> 0))
         then bestMatch else None)"

definition findMatchingOptionTier :: "opt list \<Rightarrow> string \<Rightarrow> (tier \<times> opt) option" where
  \<comment> \<open>\<open>findMatchingOption\<close> with the tier that returned recorded beside the option\<close>
  "findMatchingOptionTier options answer =
     (case exactTier options answer of
        Some option \<Rightarrow> Some (Exact, option)
      | None \<Rightarrow>
     (case partialTier options answer of
        Some option \<Rightarrow> Some (Substring, option)
      | None \<Rightarrow>
     (case letterTier options answer of
        Some option \<Rightarrow> Some (Letter, option)
      | None \<Rightarrow>
     (case fuzzyTier options answer of
        Some option \<Rightarrow> Some (Fuzzy, option)
      | None \<Rightarrow> None))))"

definition findMatchingOption :: "opt list \<Rightarrow> string \<Rightarrow> opt option" where
  \<comment> \<open>\<open>None\<close> is the source's \<open>null\<close>\<close>
  "findMatchingOption options answer = map_option snd (findMatchingOptionTier options answer)"

section \<open>The answer service of the server (ai-service.js)\<close>

datatype error = Error string | TypeError string

definition matchAnswerToOptionTier :: "string \<Rightarrow> string list \<Rightarrow> (tier \<times> string) option" where
  \<comment> \<open>\<open>_matchAnswerToOption\<close> with the tier that returned recorded; the two containment
      loops both count as the substring tier. This resolver has no fuzzy tier.\<close>
  "matchAnswerToOptionTier answer options =
     (let cleanAnswer = trim (toLowerCase answer)
      in case find (\<lambda>option. trim (toLowerCase option) = cleanAnswer) options of
           Some option \<Rightarrow> Some (Exact, option)
         | None \<Rightarrow>
        (case find (\<lambda>option. includes_str cleanAnswer (trim (toLowerCase option))) options of
           Some option \<Rightarrow> Some (Substring, option)
         | None \<Rightarrow>
        (case find (\<lambda>option. includes_str (trim (toLowerCase option)) cleanAnswer) options of
           Some option \<Rightarrow> Some (Substring, option)
         | None \<Rightarrow>
        (case letterMatch answer of
           Some index \<Rightarrow>
             if index < length options then Some (Letter, options ! index) else None
         | None \<Rightarrow> None))))"

definition matchAnswerToOption :: "string \<Rightarrow> string list \<Rightarrow> string option" where
  "matchAnswerToOption answer options = map_option snd (matchAnswerToOptionTier answer options)"

record answerObject =
  answer :: "string option"
  confidence :: nat
  explanation :: string

fun fallbackLetter :: "bool \<Rightarrow> string \<Rightarrow> nat option" where
  \<comment> \<open>the first match of \<open>/\b([A-D])[.\):\s]/i\<close>, as the index of its letter. The flag says
      that the character before the position is a word character, so that \<open>\b\<close> fails.\<close>
  "fallbackLetter prevWord (c # s # rest) =
     (if \<not> prevWord \<and> c \<in> set ''ABCD'' \<and> isSep s then Some ((of_char c :: nat) - 65)
      else if \<not> prevWord \<and> c \<in> set ''abcd'' \<and> isSep s then Some ((of_char c :: nat) - 97)
      else fallbackLetter (isWordChar c) (s # rest))"
| "fallbackLetter prevWord _ = None"

definition fallbackParse :: "string \<Rightarrow> string list \<Rightarrow> answerObject" where
  \<comment> \<open>\<open>_fallbackParse\<close>; \<open>options[0]\<close> of an empty array is \<open>undefined\<close>, here \<open>None\<close>\<close>
  "fallbackParse txt options =
     (case (case fallbackLetter False txt of
              Some index \<Rightarrow> if index < length options then Some (options ! index) else None
            | None \<Rightarrow> None) of
        Some option \<Rightarrow>
          \<lparr>answer = Some option, confidence = 50,
           explanation = ''Extracted from unstructured response''\<rparr>
      | None \<Rightarrow>
     (case find (\<lambda>option. includes_str (toLowerCase txt) (toLowerCase option)) options of
        Some option \<Rightarrow>
          \<lparr>answer = Some option, confidence = 40,
           explanation = ''Matched from response text''\<rparr>
      | None \<Rightarrow>
          \<lparr>answer = (case options of [] \<Rightarrow> None | first # _ \<Rightarrow> Some first), confidence = 20,
           explanation = ''Unable to parse AI response reliably''\<rparr>))"

definition answerMCQ ::
  "(string \<Rightarrow> string list \<Rightarrow> error + string) \<Rightarrow> (string \<Rightarrow> string list \<Rightarrow> 'r) \<Rightarrow>
   string \<Rightarrow> string list \<Rightarrow> error + 'r" where
  \<comment> \<open>The prompt and the call of the provider are outside the model: \<open>callProvider\<close> gives
      the raw response or the error they throw, \<open>parseAIResponse\<close> what is made of the
      response.\<close>
  "answerMCQ callProvider parseAIResponse question options =
     (if question = [] \<or> options = [] then Inl (Error ''Invalid question or options'')
      else case callProvider question options of
             Inl e \<Rightarrow> Inl e
           | Inr response \<Rightarrow> Inr (parseAIResponse response options))"

section \<open>Shared by the extractor and the parser\<close>

fun runStrategies :: "('i \<Rightarrow> error + 'm list) list \<Rightarrow> 'i \<Rightarrow> 'm list \<Rightarrow> 'm list" where
  \<comment> \<open>the loop \<open>for (const strategy of strategies) { try { .. } catch (error) { .. } }\<close>
      of \<open>extractAll\<close> and \<open>parse\<close>: a strategy returns an array (\<open>Inr\<close>) or throws (\<open>Inl\<close>),
      and one that throws leaves \<open>mcqs\<close> as it is\<close>
  "runStrategies [] inp mcqs = mcqs"
| "runStrategies (strategy # rest) inp mcqs =
     (case strategy inp of
        Inl err \<Rightarrow> runStrategies rest inp mcqs
      | Inr extracted \<Rightarrow>
          if length extracted > 0 then runStrategies rest inp (mcqs @ extracted)
          else runStrategies rest inp mcqs)"

fun dedupLoop :: "('m \<Rightarrow> string) \<Rightarrow> 'm list \<Rightarrow> string set \<Rightarrow> 'm list" where
  \<comment> \<open>\<open>mcqs.filter(..)\<close> with the set \<open>seen\<close>; the first argument reads \<open>mcq.question\<close>\<close>
  "dedupLoop q [] seen = []"
| "dedupLoop q (mcq # rest) seen =
     (let key = trim (toLowerCase (q mcq))
      in if key \<in> seen then dedupLoop q rest seen
         else mcq # dedupLoop q rest (insert key seen))"

subsection \<open>Option markers\<close>

definition letterMarker :: "string \<Rightarrow> bool" where
  \<comment> \<open>\<open>/^[A-Z][.\):\s]/i\<close>\<close>
  "letterMarker s = (case s of c # p # _ \<Rightarrow> isLetter c \<and> isSep p | _ \<Rightarrow> False)"

definition digitMarker :: "string \<Rightarrow> bool" where
  \<comment> \<open>\<open>/^\d+[.\):\s]/\<close>\<close>
  "digitMarker s =
     (takeWhile isDigit s \<noteq> [] \<and> (case dropWhile isDigit s of p # _ \<Rightarrow> isSep p | [] \<Rightarrow> False))"

definition parenLetterMarker :: "string \<Rightarrow> bool" where
  \<comment> \<open>\<open>/^\([A-Z]\)/i\<close>\<close>
  "parenLetterMarker s =
     (case s of l # c # r # _ \<Rightarrow> l = CHR ''('' \<and> isLetter c \<and> r = CHR '')'' | _ \<Rightarrow> False)"

definition parenDigitMarker :: "string \<Rightarrow> bool" where
  \<comment> \<open>\<open>/^\(\d+\)/\<close>\<close>
  "parenDigitMarker s =
     (case s of
        l # t \<Rightarrow> l = CHR ''('' \<and> takeWhile isDigit t \<noteq> [] \<and>
                 (case dropWhile isDigit t of r # _ \<Rightarrow> r = CHR '')'' | [] \<Rightarrow> False)
      | [] \<Rightarrow> False)"

definition removeLetterMarker :: "string \<Rightarrow> string" where
  \<comment> \<open>\<open>.replace(/^[A-Z][.\):\s]+/i, '')\<close>\<close>
  "removeLetterMarker s = (if letterMarker s then dropWhile isSep (tl s) else s)"

definition removeDigitMarker :: "string \<Rightarrow> string" where
  \<comment> \<open>\<open>.replace(/^\d+[.\):\s]+/, '')\<close>\<close>
  "removeDigitMarker s = (if digitMarker s then dropWhile isSep (dropWhile isDigit s) else s)"

definition removeParenLetterMarker :: "string \<Rightarrow> string" where
  \<comment> \<open>\<open>.replace(/^\([A-Z]\)\s*/i, '')\<close>\<close>
  "removeParenLetterMarker s = (if parenLetterMarker s then dropWhile isWhiteSpace (drop 3 s) else s)"

definition removeParenDigitMarker :: "string \<Rightarrow> string" where
  \<comment> \<open>\<open>.replace(/^\(\d+\)\s*/, '')\<close>\<close>
  "removeParenDigitMarker s =
     (if parenDigitMarker s then dropWhile isWhiteSpace (tl (dropWhile isDigit (tl s))) else s)"

text \<open>
  The shapes of what the four replacements delete, stated on their own: a letter and one
  or more separators; digits and one or more separators; a letter in parentheses and any
  white space; digits in parentheses and any white space.
\<close>

definition letterRun :: "string \<Rightarrow> bool" where
  "letterRun m = (case m of c # seps \<Rightarrow> isLetter c \<and> seps \<noteq> [] \<and> list_all isSep seps | [] \<Rightarrow> False)"

definition digitRun :: "string \<Rightarrow> bool" where
  "digitRun m =
     (takeWhile isDigit m \<noteq> [] \<and> dropWhile isDigit m \<noteq> [] \<and> list_all isSep (dropWhile isDigit m))"

definition parenLetterRun :: "string \<Rightarrow> bool" where
  "parenLetterRun m =
     (case m of
        l # c # r # ws \<Rightarrow> l = CHR ''('' \<and> isLetter c \<and> r = CHR '')'' \<and> list_all isWhiteSpace ws
      | _ \<Rightarrow> False)"

definition parenDigitRun :: "string \<Rightarrow> bool" where
  "parenDigitRun m =
     (case m of
        l # t \<Rightarrow> l = CHR ''('' \<and> takeWhile isDigit t \<noteq> [] \<and>
                 (case dropWhile isDigit t of
                    r # ws \<Rightarrow> r = CHR '')'' \<and> list_all isWhiteSpace ws
                  | [] \<Rightarrow> False)
      | [] \<Rightarrow> False)"

section \<open>The text parser (MCQParser)\<close>

record parsedMCQ =
  pquestion :: string
  poptions :: "string list"
  pnumber :: "nat option"

definition looksLikeOption :: "string \<Rightarrow> bool" where
  "looksLikeOption line =
     (line \<noteq> [] \<and>
      (letterMarker line \<or> digitMarker line \<or> parenLetterMarker line \<or> parenDigitMarker line))"

definition cleanOption :: "string \<Rightarrow> string" where
  "cleanOption line =
     trim (removeParenDigitMarker (removeParenLetterMarker (removeDigitMarker (removeLetterMarker line))))"

fun splitOn :: "char \<Rightarrow> string \<Rightarrow> string list" where
  \<comment> \<open>\<open>s.split(d)\<close> for a one-character separator\<close>
  "splitOn d [] = [[]]"
| "splitOn d (c # cs) =
     (if c = d then [] # splitOn d cs
      else (case splitOn d cs of l # ls \<Rightarrow> (c # l) # ls | [] \<Rightarrow> [[c]]))"

fun questionLoop :: "string list \<Rightarrow> nat \<Rightarrow> string \<Rightarrow> string \<times> nat" where
  \<comment> \<open>the first loop of \<open>parseQuestionBlock\<close>, from line \<open>i\<close> on; the result is
      \<open>(questionText, optionsStartIndex)\<close>, the index 0 when the loop never breaks\<close>
  "questionLoop [] i questionText = (questionText, 0)"
| "questionLoop (line # rest) i questionText =
     (if looksLikeOption line then (questionText, i)
      else questionLoop rest (Suc i)
             (questionText @ (if questionText \<noteq> [] then '' '' else []) @ line))"

definition parseQuestionBlock :: "string \<Rightarrow> parsedMCQ option" where
  "parseQuestionBlock block =
     (let lines = filter (\<lambda>l. length l > 0) (map trim (splitOn (CHR 0x0A) block))
      in if length lines < 3 then None
         else
           (let (questionText, optionsStartIndex) = questionLoop lines 0 [];
                options = filter (\<lambda>option. option \<noteq> [])
                            (map cleanOption (filter looksLikeOption (drop optionsStartIndex lines)))
            in if questionText = [] \<or> optionsStartIndex = 0 \<or> optionsStartIndex \<ge> length lines - 1
               then None
               else if length options < 2 \<or> length options > 6 then None
               else Some \<lparr>pquestion = trim questionText, poptions = options, pnumber = None\<rparr>))"

definition parseInt :: "string \<Rightarrow> nat" where
  \<comment> \<open>\<open>parseInt\<close> of a non-empty run of digits, exact below \<open>2^53\<close>\<close>
  "parseInt ds = foldl (\<lambda>n c. 10 * n + ((of_char c :: nat) - 48)) 0 ds"

subsection \<open>The regular expressions of the strategies\<close>

fun lazyUntil :: "(string \<Rightarrow> bool) \<Rightarrow> string \<Rightarrow> string \<times> string" where
  \<comment> \<open>the rest of a lazy \<open>(.+?)\<close> under the \<open>s\<close> flag, after its first character: the fewest
      characters after which the lookahead holds, and what is left. Both lookaheads hold at
      the end of the input (\<open>\n*$\<close>).\<close>
  "lazyUntil la [] = ([], [])"
| "lazyUntil la (c # cs) =
     (if la (c # cs) then ([], c # cs)
      else (let (b, r) = lazyUntil la cs in (c # b, r)))"

fun matchAllFrom ::
  "(bool \<Rightarrow> string \<Rightarrow> ('g \<times> string) option) \<Rightarrow> bool \<Rightarrow> nat \<Rightarrow> string \<Rightarrow> 'g list" where
  \<comment> \<open>\<open>text.matchAll(re)\<close> for a global expression: \<open>m atStart t\<close> matches at the position whose
      rest is \<open>t\<close> and gives the groups and the rest after the match; \<open>skip\<close> counts the
      positions still inside the last match\<close>
  "matchAllFrom m atStart skip [] =
     (if skip = 0 then (case m atStart [] of Some (g, r) \<Rightarrow> [g] | None \<Rightarrow> []) else [])"
| "matchAllFrom m atStart skip (c # cs) =
     (if skip > 0 then matchAllFrom m False (skip - 1) cs
      else (case m atStart (c # cs) of
              None \<Rightarrow> matchAllFrom m False 0 cs
            | Some (g, r) \<Rightarrow> g # matchAllFrom m False (length (c # cs) - length r - 1) cs))"

definition lookaheadNumbered :: "string \<Rightarrow> bool" where
  \<comment> \<open>\<open>(?=\n\d+[.\)]|\n*$)\<close>\<close>
  "lookaheadNumbered u =
     ((case u of
         c # v \<Rightarrow> c = CHR 0x0A \<and> takeWhile isDigit v \<noteq> [] \<and>
                  (case dropWhile isDigit v of p # _ \<Rightarrow> p = CHR ''.'' \<or> p = CHR '')'' | [] \<Rightarrow> False)
       | [] \<Rightarrow> False)
      \<or> list_all (\<lambda>c. c = CHR 0x0A) u)"

definition numberedBody :: "string \<Rightarrow> ((string \<times> string) \<times> string) option" where
  \<comment> \<open>\<open>(\d+)[.\)]\s*(.+?)(?=..)\<close>: the groups \<open>(number, block)\<close> and the rest. When only
      white space follows the marker, \<open>\s*\<close> gives its last character back to the block.\<close>
  "numberedBody t =
     (let ds = takeWhile isDigit t
      in if ds = [] then None
         else (case dropWhile isDigit t of
                 [] \<Rightarrow> None
               | p # t2 \<Rightarrow>
                   if p = CHR ''.'' \<or> p = CHR '')''
                   then (case dropWhile isWhiteSpace t2 of
                           c # cs \<Rightarrow>
                             (let (b, r) = lazyUntil lookaheadNumbered cs in Some ((ds, c # b), r))
                         | [] \<Rightarrow> if t2 = [] then None else Some ((ds, [last t2]), []))
                   else None))"

definition numberedAt :: "bool \<Rightarrow> string \<Rightarrow> ((string \<times> string) \<times> string) option" where
  \<comment> \<open>\<open>(?:^|\n)\<close> and then the body: \<open>^\<close> holds at the start of the input only (no \<open>m\<close> flag)\<close>
  "numberedAt atStart t =
     (case (if atStart then numberedBody t else None) of
        Some found \<Rightarrow> Some found
      | None \<Rightarrow> (case t of c # t' \<Rightarrow> if c = CHR 0x0A then numberedBody t' else None | [] \<Rightarrow> None))"

definition isColonOrSpace :: "char \<Rightarrow> bool" where
  \<comment> \<open>the class \<open>[:\s]\<close>\<close>
  "isColonOrSpace c = (c = CHR '':'' \<or> isWhiteSpace c)"

definition lookaheadQ :: "string \<Rightarrow> bool" where
  \<comment> \<open>\<open>(?=\nQ\d+|\n*$)\<close> under the \<open>i\<close> flag\<close>
  "lookaheadQ u =
     ((case u of
         c # q # d # _ \<Rightarrow> c = CHR 0x0A \<and> (q = CHR ''Q'' \<or> q = CHR ''q'') \<and> isDigit d
       | _ \<Rightarrow> False)
      \<or> list_all (\<lambda>c. c = CHR 0x0A) u)"

definition qBody :: "string \<Rightarrow> ((string \<times> string) \<times> string) option" where
  \<comment> \<open>\<open>Q(\d+)[:\s]*(.+?)(?=..)\<close> under the \<open>i\<close> flag. When nothing follows the separators,
      \<open>[:\s]*\<close> gives its last character back to the block; when nothing follows the
      digits, \<open>\d+\<close> gives its last digit back.\<close>
  "qBody t =
     (case t of
        [] \<Rightarrow> None
      | q # t0 \<Rightarrow>
          if q = CHR ''Q'' \<or> q = CHR ''q''
          then (let ds = takeWhile isDigit t0; t1 = dropWhile isDigit t0
                in if ds = [] then None
                   else (case dropWhile isColonOrSpace t1 of
                           c # cs \<Rightarrow>
                             (let (b, r) = lazyUntil lookaheadQ cs in Some ((ds, c # b), r))
                         | [] \<Rightarrow>
                             if t1 \<noteq> [] then Some ((ds, [last t1]), [])
                             else if length ds \<ge> 2 then Some ((butlast ds, [last ds]), [])
                             else None))
          else None)"

definition qAt :: "bool \<Rightarrow> string \<Rightarrow> ((string \<times> string) \<times> string) option" where
  "qAt atStart t =
     (case (if atStart then qBody t else None) of
        Some found \<Rightarrow> Some found
      | None \<Rightarrow> (case t of c # t' \<Rightarrow> if c = CHR 0x0A then qBody t' else None | [] \<Rightarrow> None))"

definition numberBlocks :: "(string \<times> string) list \<Rightarrow> parsedMCQ list" where
  \<comment> \<open>the loop over the matches, the same in the two numbered strategies\<close>
  "numberBlocks matches =
     concat (map (\<lambda>(questionNum, questionBlock).
                    case parseQuestionBlock questionBlock of
                      Some mcq \<Rightarrow> [mcq\<lparr>pnumber := Some (parseInt questionNum)\<rparr>]
                    | None \<Rightarrow> [])
                 matches)"

definition parseNumberedQuestions :: "string \<Rightarrow> parsedMCQ list" where
  "parseNumberedQuestions txt = numberBlocks (matchAllFrom numberedAt True 0 txt)"

definition parseQPrefixedQuestions :: "string \<Rightarrow> parsedMCQ list" where
  "parseQPrefixedQuestions txt = numberBlocks (matchAllFrom qAt True 0 txt)"

function splitBlankLines :: "string \<Rightarrow> string list" where
  \<comment> \<open>\<open>text.split(/\n{2,}/)\<close>: a run of two or more line feeds is one separator\<close>
  "splitBlankLines [] = [[]]"
| "splitBlankLines (c # cs) =
     (if c = CHR 0x0A \<and> (case cs of d # _ \<Rightarrow> d = CHR 0x0A | [] \<Rightarrow> False)
      then [] # splitBlankLines (dropWhile (\<lambda>d. d = CHR 0x0A) cs)
      else (case splitBlankLines cs of l # ls \<Rightarrow> (c # l) # ls | [] \<Rightarrow> [[c]]))"
  by pat_completeness auto
termination
  by (relation "measure length") (auto simp: less_Suc_eq_le length_dropWhile_le)

fun wordThenSpace :: "string list \<Rightarrow> string \<Rightarrow> bool" where
  \<comment> \<open>one of the words, followed by a white space character, somewhere in the text\<close>
  "wordThenSpace ws [] = False"
| "wordThenSpace ws (c # cs) =
     (list_ex (\<lambda>w. prefix w (c # cs) \<and>
                    (case drop (length w) (c # cs) of s # _ \<Rightarrow> isWhiteSpace s | [] \<Rightarrow> False)) ws
      \<or> wordThenSpace ws cs)"

definition looksLikeQuestion :: "string \<Rightarrow> bool" where
  \<comment> \<open>the parser's \<open>looksLikeQuestion\<close>; all its patterns but the first carry the \<open>i\<close> flag\<close>
  "looksLikeQuestion txt =
     (if txt = [] \<or> length txt < 10 then False
      else (CHR ''?'' \<in> set txt
            \<or> list_ex (\<lambda>w. prefix w (toLowerCase txt))
                 [''what'', ''which'', ''who'', ''where'', ''when'', ''why'', ''how'']
            \<or> list_ex (\<lambda>w. prefix w (toLowerCase txt))
                 [''select'', ''choose'', ''identify'', ''find'', ''determine'', ''calculate'']
            \<or> wordThenSpace
                 [''is'', ''are'', ''was'', ''were'', ''will'', ''would'', ''should'', ''can'', ''could'']
                 (toLowerCase txt)))"

definition parseBlockQuestions :: "string \<Rightarrow> parsedMCQ list" where
  "parseBlockQuestions txt =
     concat (map (\<lambda>block.
                    if looksLikeQuestion block
                    then (case parseQuestionBlock block of Some mcq \<Rightarrow> [mcq] | None \<Rightarrow> [])
                    else [])
                 (splitBlankLines txt))"

definition deduplicateParsed :: "parsedMCQ list \<Rightarrow> parsedMCQ list" where
  \<comment> \<open>\<open>MCQParser.deduplicate\<close>\<close>
  "deduplicateParsed mcqs = dedupLoop pquestion mcqs {}"

definition parseStrategies :: "(string \<Rightarrow> error + parsedMCQ list) list" where
  \<comment> \<open>the three strategies of \<open>parse\<close>, in its order\<close>
  "parseStrategies =
     [\<lambda>txt. Inr (parseNumberedQuestions txt),
      \<lambda>txt. Inr (parseQPrefixedQuestions txt),
      \<lambda>txt. Inr (parseBlockQuestions txt)]"

definition parse :: "string \<Rightarrow> parsedMCQ list" where
  "parse txt =
     (if txt = [] \<or> length (trim txt) = 0 then []
      else deduplicateParsed (runStrategies parseStrategies txt []))"

section \<open>The page extractor (MCQExtractor)\<close>

text \<open>
  The extractor reads the page through DOM queries. The model takes what those queries
  return as its input: a \<open>document\<close> lists, for every strategy, the nodes its selectors
  find, each with the texts the strategy reads from it. A node is an opaque \<open>element\<close>.
  The lookups \<open>findQuestionForRadioGroup\<close>, \<open>findQuestionBeforeElement\<close>,
  \<open>findLabelForInput\<close> and \<open>extractTextContent\<close> walk the tree; their results are fields of
  the nodes.
\<close>

record questionRef =
  qtext :: string
  qelement :: element

datatype mcqType = RadioType | ListType | DivType | TableType | GoogleFormsType | QuizletType | CanvasType

record mcq =
  question :: string
  questionElement :: element
  options :: "opt list"
  mcqType :: mcqType
  groupName :: "string option"

record radioInput =
  relement :: element
  rname :: string
  rvalue :: string
  rlabel :: "string option"
  rquestion :: "questionRef option"

record listNode =
  litems :: "(element \<times> string) list"
  lquestion :: "questionRef option"

record divQuestion =
  delement :: element
  dtext :: string
  dfound :: "(element \<times> string) list list"

record platformItem =
  pelement :: element
  pheading :: "string option"
  pchoices :: "(element \<times> string) list"

record document =
  radios :: "radioInput list"
  lists :: "listNode list"
  divQuestions :: "divQuestion list"
  tables :: "(element \<times> string) list list"
  hostname :: string
  hasCanvasClass :: bool
  googleItems :: "platformItem list"
  quizletItems :: "platformItem list"
  canvasItems :: "platformItem list"

text \<open>
  \<open>radios\<close>: the \<open>input[type="radio"]\<close> elements in document order, with \<open>rlabel\<close> the result
  of \<open>findLabelForInput\<close> and \<open>rquestion\<close> that of \<open>findQuestionForRadioGroup\<close>.
  \<open>lists\<close>: the \<open>ol, ul\<close> elements, with their \<open>li\<close> descendants and \<open>textContent\<close>, and the
  result of \<open>findQuestionBeforeElement\<close>.
  \<open>divQuestions\<close>: the elements the five question selectors find, one entry per selector
  and element in the order of the two loops, with \<open>extractTextContent\<close> of the element and,
  for each of the five option selectors in order, the elements \<open>found\<close> with their text.
  \<open>tables\<close>: for each \<open>table\<close> its \<open>tr\<close> rows with \<open>extractTextContent\<close>.
  \<open>hostname\<close> is \<open>window.location.hostname\<close>; \<open>hasCanvasClass\<close> says that
  \<open>document.querySelector('[class*="canvas"]')\<close> finds an element. The three item lists are
  the question containers of the platform templates, with the \<open>textContent\<close> of the heading
  the template looks up (\<open>None\<close> when there is none) and the choice elements with theirs.
\<close>

definition objectPrototypeKeys :: "string list" where
  \<comment> \<open>the properties an empty object literal inherits from \<open>Object.prototype\<close>\<close>
  "objectPrototypeKeys =
     [''constructor'', ''__defineGetter__'', ''__defineSetter__'', ''hasOwnProperty'',
      ''__lookupGetter__'', ''__lookupSetter__'', ''isPrototypeOf'', ''propertyIsEnumerable'',
      ''toString'', ''valueOf'', ''__proto__'', ''toLocaleString'']"

definition addToGroup :: "string \<Rightarrow> radioInput \<Rightarrow> (string \<times> radioInput list) list \<Rightarrow> (string \<times> radioInput list) list" where
  \<comment> \<open>\<open>if (!radioGroups[name]) radioGroups[name] = []; radioGroups[name].push(radio)\<close> for a
      name that is not inherited: a new key goes last\<close>
  "addToGroup name radio groups =
     (if name \<in> set (map fst groups)
      then map (\<lambda>(k, rs). if k = name then (k, rs @ [radio]) else (k, rs)) groups
      else groups @ [(name, [radio])])"

fun groupRadios :: "radioInput list \<Rightarrow> (string \<times> radioInput list) list \<Rightarrow> error + (string \<times> radioInput list) list" where
  \<comment> \<open>the \<open>forEach\<close> that fills \<open>radioGroups\<close>. For an inherited name \<open>radioGroups[name]\<close> is
      truthy and is no array, and the call of \<open>push\<close> throws.\<close>
  "groupRadios [] groups = Inr groups"
| "groupRadios (radio # rest) groups =
     (if rname radio = [] then groupRadios rest groups
      else if rname radio \<in> set objectPrototypeKeys
      then Inl (TypeError ''radioGroups[name].push is not a function'')
      else groupRadios rest (addToGroup (rname radio) radio groups))"

definition isArrayIndex :: "string \<Rightarrow> bool" where
  \<comment> \<open>a canonical numeric string below \<open>2^32 - 1\<close>\<close>
  "isArrayIndex k =
     (k \<noteq> [] \<and> list_all isDigit k \<and> (k = ''0'' \<or> hd k \<noteq> CHR ''0'') \<and> parseInt k < 4294967295)"

definition objectEntries :: "(string \<times> 'v) list \<Rightarrow> (string \<times> 'v) list" where
  \<comment> \<open>\<open>Object.entries\<close>: array-index keys in ascending order, then the others as inserted\<close>
  "objectEntries groups =
     sort_key (\<lambda>(k, v). parseInt k) (filter (\<lambda>(k, v). isArrayIndex k) groups)
     @ filter (\<lambda>(k, v). \<not> isArrayIndex k) groups"

definition radioOption :: "radioInput \<Rightarrow> opt" where
  \<comment> \<open>\<open>{ text: label || radio.value, element: radio, value: radio.value }\<close>\<close>
  "radioOption radio =
     \<lparr>otext = (case rlabel radio of
                 Some label \<Rightarrow> if label \<noteq> [] then label else rvalue radio
               | None \<Rightarrow> rvalue radio),
      oelement = relement radio, ovalue = rvalue radio\<rparr>"

fun radioGroupLoop :: "(string \<times> radioInput list) list \<Rightarrow> mcq list \<Rightarrow> error + mcq list" where
  \<comment> \<open>the loop over \<open>Object.entries(radioGroups)\<close>; a group is never empty, and
      \<open>findQuestionForRadioGroup(undefined)\<close> would throw\<close>
  "radioGroupLoop [] mcqs = Inr mcqs"
| "radioGroupLoop ((name, []) # rest) mcqs =
     Inl (TypeError ''Cannot read properties of undefined'')"
| "radioGroupLoop ((name, first # others) # rest) mcqs =
     (let options = map radioOption (first # others)
      in case rquestion first of
           Some q \<Rightarrow>
             if length options > 1
             then radioGroupLoop rest
                    (mcqs @ [\<lparr>question = qtext q, questionElement = qelement q, options = options,
                              mcqType = RadioType, groupName = Some name\<rparr>])
             else radioGroupLoop rest mcqs
         | None \<Rightarrow> radioGroupLoop rest mcqs)"

definition extractFromRadioButtons :: "document \<Rightarrow> error + mcq list" where
  "extractFromRadioButtons doc =
     (case groupRadios (radios doc) [] of
        Inl err \<Rightarrow> Inl err
      | Inr radioGroups \<Rightarrow> radioGroupLoop (objectEntries radioGroups) [])"

definition cleanOptionText :: "string \<Rightarrow> string" where
  "cleanOptionText s = trim (removeDigitMarker (removeLetterMarker s))"

definition nodeOption :: "element \<times> string \<Rightarrow> opt" where
  \<comment> \<open>\<open>{ text: t, element: elem, value: t }\<close>\<close>
  "nodeOption node = \<lparr>otext = snd node, oelement = fst node, ovalue = snd node\<rparr>"

definition extractFromLists :: "document \<Rightarrow> mcq list" where
  "extractFromLists doc =
     concat (map (\<lambda>l.
       case lquestion l of
         None \<Rightarrow> []
       | Some q \<Rightarrow>
           if length (litems l) \<ge> 2 \<and> length (litems l) \<le> 6
              \<and> list_ex (\<lambda>item. letterMarker (trim (snd item)) \<or> digitMarker (trim (snd item))) (litems l)
           then [\<lparr>question = qtext q, questionElement = qelement q,
                  options = map (\<lambda>item. \<lparr>otext = cleanOptionText (snd item), oelement = fst item,
                                          ovalue = trim (snd item)\<rparr>) (litems l),
                  mcqType = ListType, groupName = None\<rparr>]
           else [])
       (lists doc))"

definition extractFromDivStructure :: "document \<Rightarrow> mcq list" where
  "extractFromDivStructure doc =
     concat (map (\<lambda>qElem.
       let optionElements = foldl (\<lambda>acc found. if length found > 0 then found else acc) [] (dfound qElem)
       in if length optionElements \<ge> 2 \<and> length optionElements \<le> 6
          then [\<lparr>question = dtext qElem, questionElement = delement qElem,
                 options = map nodeOption optionElements, mcqType = DivType, groupName = None\<rparr>]
          else [])
       (divQuestions doc))"

definition extractFromTableFormat :: "document \<Rightarrow> mcq list" where
  "extractFromTableFormat doc =
     concat (map (\<lambda>rows.
       case rows of
         firstRow # optionRows \<Rightarrow>
           if length rows \<ge> 3 \<and> length optionRows \<ge> 2 \<and> length optionRows \<le> 6
           then [\<lparr>question = snd firstRow, questionElement = fst firstRow,
                  options = map nodeOption optionRows, mcqType = TableType, groupName = None\<rparr>]
           else []
       | [] \<Rightarrow> [])
       (tables doc))"

definition extractFromPlatform :: "mcqType \<Rightarrow> platformItem list \<Rightarrow> mcq list" where
  \<comment> \<open>the body that \<open>extractFromGoogleForms\<close>, \<open>extractFromQuizlet\<close> and \<open>extractFromCanvas\<close>
      have in common, up to their selectors and the \<open>type\<close> they write\<close>
  "extractFromPlatform ty items =
     concat (map (\<lambda>q.
       case pheading q of
         Some questionText \<Rightarrow>
           if questionText \<noteq> [] \<and> length (pchoices q) > 1
           then [\<lparr>question = questionText, questionElement = pelement q,
                  options = map nodeOption (pchoices q), mcqType = ty, groupName = None\<rparr>]
           else []
       | None \<Rightarrow> [])
       items)"

definition extractFromCommonPlatforms :: "document \<Rightarrow> mcq list" where
  "extractFromCommonPlatforms doc =
     (if includes_str (hostname doc) ''google.com/forms''
      then extractFromPlatform GoogleFormsType (googleItems doc)
      else if includes_str (hostname doc) ''quizlet.com''
      then extractFromPlatform QuizletType (quizletItems doc)
      else if includes_str (hostname doc) ''instructure.com'' \<or> hasCanvasClass doc
      then extractFromPlatform CanvasType (canvasItems doc)
      else [])"

definition deduplicate :: "mcq list \<Rightarrow> mcq list" where
  \<comment> \<open>\<open>MCQExtractor.deduplicate\<close>\<close>
  "deduplicate mcqs = dedupLoop question mcqs {}"

definition extractStrategies :: "(document \<Rightarrow> error + mcq list) list" where
  \<comment> \<open>the five strategies of \<open>extractAll\<close>, in its order\<close>
  "extractStrategies =
     [extractFromRadioButtons,
      \<lambda>doc. Inr (extractFromLists doc),
      \<lambda>doc. Inr (extractFromDivStructure doc),
      \<lambda>doc. Inr (extractFromTableFormat doc),
      \<lambda>doc. Inr (extractFromCommonPlatforms doc)]"

definition extractAll :: "document \<Rightarrow> mcq list" where
  "extractAll doc = deduplicate (runStrategies extractStrategies doc [])"

section \<open>Example inputs\<close>

definition emptyDocument :: document where
  "emptyDocument =
     \<lparr>radios = [], lists = [], divQuestions = [], tables = [], hostname = ''example.org'',
      hasCanvasClass = False, googleItems = [], quizletItems = [], canvasItems = []\<rparr>"

definition scaleRadio :: "element \<Rightarrow> string \<Rightarrow> radioInput" where
  \<comment> \<open>one radio button of the group \<open>q1\<close>, labelled by its value\<close>
  "scaleRadio e v =
     \<lparr>relement = e, rname = ''q1'', rvalue = v, rlabel = None,
      rquestion = Some \<lparr>qtext = ''How often do you exercise?'', qelement = 100\<rparr>\<rparr>"

definition scaleDocument :: document where
  \<comment> \<open>a page with one group of seven radio buttons\<close>
  "scaleDocument =
     emptyDocument\<lparr>radios :=
       [scaleRadio 1 ''1'', scaleRadio 2 ''2'', scaleRadio 3 ''3'', scaleRadio 4 ''4'',
        scaleRadio 5 ''5'', scaleRadio 6 ''6'', scaleRadio 7 ''7'']\<rparr>"

definition throwingDocument :: document where
  \<comment> \<open>a page with a radio button named \<open>constructor\<close> and a table of three rows\<close>
  "throwingDocument =
     emptyDocument\<lparr>
       radios := [\<lparr>relement = 1, rname = ''constructor'', rvalue = ''x'', rlabel = None,
                   rquestion = None\<rparr>],
       tables := [[(2, ''Which one is a fruit?''), (3, ''Apple''), (4, ''Granite'')]]\<rparr>"

definition plainOption :: "string \<Rightarrow> opt" where
  "plainOption t = \<lparr>otext = t, oelement = 0, ovalue = t\<rparr>"

definition tableCandidate :: "string \<Rightarrow> opt list \<Rightarrow> mcq" where
  "tableCandidate q os =
     \<lparr>question = q, questionElement = 0, options = os, mcqType = TableType, groupName = None\<rparr>"

definition exampleCandidates :: "mcq list" where
  \<comment> \<open>the first two differ in case, outer white space and options only\<close>
  "exampleCandidates =
     [tableCandidate ''What is 2+2?'' [plainOption ''3'', plainOption ''4''],
      tableCandidate '' what is 2+2? '' [plainOption ''3'', plainOption ''4'', plainOption ''5''],
      tableCandidate ''What is 3+3?'' [plainOption ''6'', plainOption ''9'']]"

definition arithmeticText :: string where
  "arithmeticText = ''1. What is 2+2?\<newline>A. 2\<newline>B. 3\<newline>C. 4\<newline>D. 5''"

definition exampleParsed :: "parsedMCQ list" where
  \<comment> \<open>two parsed candidates whose questions differ in case only\<close>
  "exampleParsed =
     [\<lparr>pquestion = ''What is 2+2?'', poptions = [''3'', ''4''], pnumber = Some 1\<rparr>,
      \<lparr>pquestion = ''WHAT IS 2+2?'', poptions = [''4'', ''5''], pnumber = None\<rparr>]"

section \<open>Evaluating the parser on an example\<close>

lemmas char_eval = isWhiteSpace_def isDigit_def isUpper_def isLower_def isLetter_def isSep_def
  toLowerCase_def toLowerChar_def trim_def char_of_def bit_iff_odd

lemmas marker_eval = looksLikeOption_def letterMarker_def digitMarker_def
  parenLetterMarker_def parenDigitMarker_def cleanOption_def removeLetterMarker_def
  removeDigitMarker_def removeParenLetterMarker_def removeParenDigitMarker_def

lemma numbered_matches_arithmeticText:
  "matchAllFrom numberedAt True 0 arithmeticText
   = [(''1'', ''What is 2+2?\<newline>A. 2\<newline>B. 3\<newline>C. 4\<newline>D. 5'')]"
  by (simp add: arithmeticText_def numberedAt_def numberedBody_def lookaheadNumbered_def char_eval Let_def)

lemma q_matches_arithmeticText: "matchAllFrom qAt True 0 arithmeticText = []"
  by (simp add: arithmeticText_def qAt_def qBody_def)

lemma block_arithmeticText:
  "parseQuestionBlock ''What is 2+2?\<newline>A. 2\<newline>B. 3\<newline>C. 4\<newline>D. 5''
   = Some \<lparr>pquestion = ''What is 2+2?'', poptions = [''2'', ''3'', ''4'', ''5''], pnumber = None\<rparr>"
  by (simp add: parseQuestionBlock_def marker_eval char_eval Let_def)

lemma whole_arithmeticText: "parseQuestionBlock arithmeticText = None"
  by (simp add: arithmeticText_def parseQuestionBlock_def marker_eval char_eval Let_def)

lemma split_arithmeticText: "splitBlankLines arithmeticText = [arithmeticText]"
  by (simp add: arithmeticText_def)

lemma parseBlockQuestions_arithmeticText: "parseBlockQuestions arithmeticText = []"
  by (simp add: parseBlockQuestions_def split_arithmeticText whole_arithmeticText)

lemma parse_arithmeticText:
  "parse arithmeticText
   = [\<lparr>pquestion = ''What is 2+2?'', poptions = [''2'', ''3'', ''4'', ''5''], pnumber = Some 1\<rparr>]"
proof -
  have "parseNumberedQuestions arithmeticText
        = [\<lparr>pquestion = ''What is 2+2?'', poptions = [''2'', ''3'', ''4'', ''5''], pnumber = Some 1\<rparr>]"
    by (simp add: parseNumberedQuestions_def numberBlocks_def numbered_matches_arithmeticText
        block_arithmeticText parseInt_def)
  moreover have "parseQPrefixedQuestions arithmeticText = []"
    by (simp add: parseQPrefixedQuestions_def numberBlocks_def q_matches_arithmeticText)
  moreover have "arithmeticText \<noteq> [] \<and> length (trim arithmeticText) \<noteq> 0"
    by (simp add: arithmeticText_def trim_def isWhiteSpace_def)
  ultimately show ?thesis
    by (simp add: parse_def parseStrategies_def deduplicateParsed_def
        parseBlockQuestions_arithmeticText Let_def)
qed

section \<open>Deduplication\<close>

lemma dedupLoop_keys_fresh:
  "m \<in> set (dedupLoop q xs seen) \<Longrightarrow> trim (toLowerCase (q m)) \<notin> seen"
  by (induction xs arbitrary: seen) (auto simp: Let_def split: if_splits)

lemma dedupLoop_subseq: "subseq (dedupLoop q xs seen) xs"
  by (induction xs arbitrary: seen) (auto simp: Let_def)

lemma dedupLoop_subset: "set (dedupLoop q xs seen) \<subseteq> set xs"
  by (induction xs arbitrary: seen) (auto simp: Let_def)

lemma dedupLoop_distinct: "distinct (map (\<lambda>m. trim (toLowerCase (q m))) (dedupLoop q xs seen))"
proof (induction xs arbitrary: seen)
  case Nil
  show ?case by simp
next
  case (Cons x xs)
  show ?case
  proof (cases "trim (toLowerCase (q x)) \<in> seen")
    case True
    then show ?thesis using Cons.IH [of seen] by (simp add: Let_def)
  next
    case False
    have "trim (toLowerCase (q m)) \<noteq> trim (toLowerCase (q x))"
      if "m \<in> set (dedupLoop q xs (insert (trim (toLowerCase (q x))) seen))" for m
      using dedupLoop_keys_fresh [OF that] by auto
    then have "trim (toLowerCase (q x)) \<notin> (\<lambda>m. trim (toLowerCase (q m))) ` set (dedupLoop q xs (insert (trim (toLowerCase (q x))) seen))"
      by force
    then show ?thesis
      using False Cons.IH [of "insert (trim (toLowerCase (q x))) seen"] by (simp add: Let_def)
  qed
qed

lemma dedupLoop_keys:
  "(\<lambda>m. trim (toLowerCase (q m))) ` set (dedupLoop q xs seen)
     = (\<lambda>m. trim (toLowerCase (q m))) ` set xs - seen"
  by (induction xs arbitrary: seen) (auto simp: Let_def)

lemma dedupLoop_first:
  "m \<in> set (dedupLoop q xs seen) \<Longrightarrow>
   find (\<lambda>y. trim (toLowerCase (q y)) = trim (toLowerCase (q m))) xs = Some m"
proof (induction xs arbitrary: seen)
  case Nil
  then show ?case by simp
next
  case (Cons x xs)
  show ?case
  proof (cases "trim (toLowerCase (q x)) \<in> seen")
    case True
    with Cons.prems have m: "m \<in> set (dedupLoop q xs seen)" by (simp add: Let_def)
    then have "trim (toLowerCase (q m)) \<notin> seen" by (rule dedupLoop_keys_fresh)
    with True have "trim (toLowerCase (q x)) \<noteq> trim (toLowerCase (q m))" by auto
    then show ?thesis using Cons.IH [OF m] by simp
  next
    case False
    with Cons.prems consider "m = x"
      | "m \<in> set (dedupLoop q xs (insert (trim (toLowerCase (q x))) seen))"
      by (auto simp: Let_def)
    then show ?thesis
    proof cases
      case 1
      then show ?thesis by simp
    next
      case 2
      then have "trim (toLowerCase (q m)) \<notin> insert (trim (toLowerCase (q x))) seen"
        by (rule dedupLoop_keys_fresh)
      then have "trim (toLowerCase (q x)) \<noteq> trim (toLowerCase (q m))" by auto
      then show ?thesis using Cons.IH [OF 2] by simp
    qed
  qed
qed

lemma dedupLoop_map:
  "(\<And>m. q (f m) = q m) \<Longrightarrow> dedupLoop q (map f xs) seen = map f (dedupLoop q xs seen)"
  by (induction xs arbitrary: seen) (auto simp: Let_def)

text \<open>
  C3. \<open>deduplicate\<close> (of the extractor and of the parser) returns a subsequence of its
  input; the keys of the result, the lower-cased and trimmed question texts, are pairwise
  different and are all the keys of the input; every candidate it keeps is the first
  candidate of the input with its key; and putting other options into the candidates
  changes nothing in which of them are kept.
\<close>

theorem deduplicate_keeps_first:
  "subseq (deduplicate mcqs) mcqs
   \<and> distinct (map (\<lambda>m. trim (toLowerCase (question m))) (deduplicate mcqs))
   \<and> (\<lambda>m. trim (toLowerCase (question m))) ` set (deduplicate mcqs)
       = (\<lambda>m. trim (toLowerCase (question m))) ` set mcqs
   \<and> (\<forall>m \<in> set (deduplicate mcqs).
         find (\<lambda>y. trim (toLowerCase (question y)) = trim (toLowerCase (question m))) mcqs = Some m)
   \<and> deduplicate (map (\<lambda>m. m\<lparr>options := f m\<rparr>) mcqs)
       = map (\<lambda>m. m\<lparr>options := f m\<rparr>) (deduplicate mcqs)
   \<and> subseq (deduplicateParsed parsed) parsed
   \<and> distinct (map (\<lambda>m. trim (toLowerCase (pquestion m))) (deduplicateParsed parsed))
   \<and> (\<lambda>m. trim (toLowerCase (pquestion m))) ` set (deduplicateParsed parsed)
       = (\<lambda>m. trim (toLowerCase (pquestion m))) ` set parsed
   \<and> (\<forall>m \<in> set (deduplicateParsed parsed).
         find (\<lambda>y. trim (toLowerCase (pquestion y)) = trim (toLowerCase (pquestion m))) parsed = Some m)
   \<and> deduplicateParsed (map (\<lambda>m. m\<lparr>poptions := g m\<rparr>) parsed)
       = map (\<lambda>m. m\<lparr>poptions := g m\<rparr>) (deduplicateParsed parsed)"
  unfolding deduplicate_def deduplicateParsed_def
  using dedupLoop_first [of _ question mcqs "{}"] dedupLoop_first [of _ pquestion parsed "{}"]
  by (simp add: dedupLoop_subseq dedupLoop_distinct dedupLoop_keys dedupLoop_map)

lemma trim_examples:
  "trim (toLowerCase ''What is 2+2?'') = ''what is 2+2?''"
  "trim (toLowerCase '' what is 2+2? '') = ''what is 2+2?''"
  "trim (toLowerCase ''What is 3+3?'') = ''what is 3+3?''"
  "trim (toLowerCase ''WHAT IS 2+2?'') = ''what is 2+2?''"
  by (simp_all add: char_eval)

theorem deduplicate_keeps_first_witness:
  "deduplicate exampleCandidates
     = [tableCandidate ''What is 2+2?'' [plainOption ''3'', plainOption ''4''],
        tableCandidate ''What is 3+3?'' [plainOption ''6'', plainOption ''9'']]
   \<and> subseq (deduplicate exampleCandidates) exampleCandidates
   \<and> deduplicateParsed exampleParsed
       = [\<lparr>pquestion = ''What is 2+2?'', poptions = [''3'', ''4''], pnumber = Some 1\<rparr>]
   \<and> subseq (deduplicateParsed exampleParsed) exampleParsed"
  using deduplicate_keeps_first [of exampleCandidates _ exampleParsed]
  by (simp add: deduplicate_def deduplicateParsed_def exampleCandidates_def exampleParsed_def
      tableCandidate_def trim_examples Let_def)

section \<open>The strategy loop\<close>

lemma runStrategies_concat:
  "runStrategies ss inp acc
     = acc @ concat (map (\<lambda>s. case s inp of Inl e \<Rightarrow> [] | Inr xs \<Rightarrow> xs) ss)"
  by (induction ss arbitrary: acc) (auto split: sum.splits)

text \<open>
  C8. Whatever the strategies are, the loop of \<open>extractAll\<close> and \<open>parse\<close> collects the
  candidates of the strategies that return, in order, and nothing for one that throws;
  the result is the same as without the throwing strategies. \<open>extractAll\<close> and \<open>parse\<close>
  return the deduplicated collection, and no error: their results are lists.
\<close>

theorem strategy_failure_is_isolated:
  "runStrategies ss inp [] = concat (map (\<lambda>s. case s inp of Inl e \<Rightarrow> [] | Inr xs \<Rightarrow> xs) ss)
   \<and> runStrategies ss inp [] = runStrategies (filter (\<lambda>s. isl (s inp) = False) ss) inp []
   \<and> (s inp = Inl e \<longrightarrow> runStrategies (before @ s # after) inp []
                              = runStrategies (before @ after) inp [])
   \<and> extractAll doc
       = deduplicate (concat (map (\<lambda>s. case s doc of Inl e \<Rightarrow> [] | Inr xs \<Rightarrow> xs) extractStrategies))
   \<and> (txt \<noteq> [] \<and> trim txt \<noteq> [] \<longrightarrow>
        parse txt
          = deduplicateParsed
              (concat (map (\<lambda>s. case s txt of Inl e \<Rightarrow> [] | Inr xs \<Rightarrow> xs) parseStrategies)))"
proof -
  have "concat (map (\<lambda>s. case s inp of Inl e \<Rightarrow> [] | Inr xs \<Rightarrow> xs) ss)
        = concat (map (\<lambda>s. case s inp of Inl e \<Rightarrow> [] | Inr xs \<Rightarrow> xs)
                    (filter (\<lambda>s. isl (s inp) = False) ss))"
    by (induction ss) (auto split: sum.splits)
  then show ?thesis
    by (simp add: runStrategies_concat extractAll_def parse_def)
qed

theorem strategy_failure_is_isolated_witness:
  "extractFromRadioButtons throwingDocument
     = Inl (TypeError ''radioGroups[name].push is not a function'')
   \<and> extractAll throwingDocument
       = [\<lparr>question = ''Which one is a fruit?'', questionElement = 2,
           options = [nodeOption (3, ''Apple''), nodeOption (4, ''Granite'')],
           mcqType = TableType, groupName = None\<rparr>]
   \<and> runStrategies ([] @ extractFromRadioButtons # tl extractStrategies) throwingDocument []
       = runStrategies ([] @ tl extractStrategies) throwingDocument []
   \<and> arithmeticText \<noteq> [] \<and> trim arithmeticText \<noteq> []
   \<and> parse arithmeticText = deduplicateParsed (parseNumberedQuestions arithmeticText)"
proof -
  have thrown: "extractFromRadioButtons throwingDocument
                  = Inl (TypeError ''radioGroups[name].push is not a function'')"
    by (simp add: extractFromRadioButtons_def throwingDocument_def emptyDocument_def
        objectPrototypeKeys_def)
  have key: "trim (toLowerCase ''Which one is a fruit?'') = ''which one is a fruit?''"
    by (simp add: char_eval)
  have nonblank: "arithmeticText \<noteq> [] \<and> trim arithmeticText \<noteq> []"
    by (simp add: arithmeticText_def trim_def isWhiteSpace_def)
  have others: "parseQPrefixedQuestions arithmeticText = []"
    by (simp add: parseQPrefixedQuestions_def numberBlocks_def q_matches_arithmeticText)
  have rest: "extractFromLists throwingDocument = []"
    "extractFromDivStructure throwingDocument = []"
    "extractFromCommonPlatforms throwingDocument = []"
    "extractFromTableFormat throwingDocument
       = [\<lparr>question = ''Which one is a fruit?'', questionElement = 2,
           options = [nodeOption (3, ''Apple''), nodeOption (4, ''Granite'')],
           mcqType = TableType, groupName = None\<rparr>]"
    by (simp_all add: extractFromLists_def extractFromDivStructure_def
        extractFromCommonPlatforms_def extractFromTableFormat_def throwingDocument_def
        emptyDocument_def)
  show ?thesis
    using strategy_failure_is_isolated
      [of "extractFromRadioButtons # tl extractStrategies" throwingDocument
          extractFromRadioButtons "TypeError ''radioGroups[name].push is not a function''"
          "[]" "tl extractStrategies" throwingDocument arithmeticText]
    by (simp add: thrown rest key nonblank others parseBlockQuestions_arithmeticText
        extractStrategies_def parseStrategies_def deduplicate_def Let_def)
qed

section \<open>Option counts\<close>

lemma radioGroupLoop_options:
  "radioGroupLoop gs acc = Inr r \<Longrightarrow> m \<in> set r \<Longrightarrow>
   m \<in> set acc \<or> (2 \<le> length (options m) \<and> mcqType m = RadioType)"
proof (induction gs arbitrary: acc)
  case Nil
  then show ?case by simp
next
  case (Cons g gs)
  obtain name rs where g: "g = (name, rs)" by (cases g)
  show ?case
  proof (cases rs)
    case Nil
    with g Cons.prems show ?thesis by simp
  next
    case rs: (Cons first others)
    show ?thesis
    proof (cases "rquestion first")
      case None
      with g rs Cons.prems Cons.IH [of acc] show ?thesis by (simp add: Let_def)
    next
      case (Some q)
      show ?thesis
      proof (cases "others = []")
        case True
        with Some g rs Cons.prems Cons.IH [of acc] show ?thesis by (simp add: Let_def)
      next
        case False
        define new where "new = \<lparr>question = qtext q, questionElement = qelement q,
          options = map radioOption (first # others), mcqType = RadioType, groupName = Some name\<rparr>"
        have loop: "radioGroupLoop gs (acc @ [new]) = Inr r"
          using False Some g rs Cons.prems(1) by (simp add: Let_def new_def)
        have "2 \<le> length (options new) \<and> mcqType new = RadioType"
          using False by (cases others) (simp_all add: new_def)
        then show ?thesis using Cons.IH [OF loop Cons.prems(2)] by auto
      qed
    qed
  qed
qed

lemma extractFromRadioButtons_options:
  "extractFromRadioButtons doc = Inr r \<Longrightarrow> m \<in> set r \<Longrightarrow>
   2 \<le> length (options m) \<and> mcqType m = RadioType"
  using radioGroupLoop_options [of _ "[]" r m]
  by (auto simp: extractFromRadioButtons_def split: sum.splits)

lemma extractFromLists_options:
  "m \<in> set (extractFromLists doc) \<Longrightarrow>
   2 \<le> length (options m) \<and> length (options m) \<le> 6 \<and> mcqType m = ListType"
  by (auto simp: extractFromLists_def split: option.splits if_splits)

lemma extractFromDivStructure_options:
  "m \<in> set (extractFromDivStructure doc) \<Longrightarrow>
   2 \<le> length (options m) \<and> length (options m) \<le> 6 \<and> mcqType m = DivType"
  by (auto simp: extractFromDivStructure_def Let_def split: if_splits)

lemma extractFromTableFormat_options:
  "m \<in> set (extractFromTableFormat doc) \<Longrightarrow>
   2 \<le> length (options m) \<and> length (options m) \<le> 6 \<and> mcqType m = TableType"
  by (auto simp: extractFromTableFormat_def split: list.splits if_splits)

lemma extractFromPlatform_options:
  "m \<in> set (extractFromPlatform ty items) \<Longrightarrow> 2 \<le> length (options m) \<and> mcqType m = ty"
  by (auto simp: extractFromPlatform_def split: option.splits if_splits)

lemma extractFromCommonPlatforms_options:
  "m \<in> set (extractFromCommonPlatforms doc) \<Longrightarrow>
   2 \<le> length (options m) \<and> mcqType m \<in> {GoogleFormsType, QuizletType, CanvasType}"
  using extractFromPlatform_options [of m]
  by (auto simp: extractFromCommonPlatforms_def split: if_splits)

lemma extractAll_subset:
  "m \<in> set (extractAll doc) \<Longrightarrow>
   (\<exists>r. extractFromRadioButtons doc = Inr r \<and> m \<in> set r)
   \<or> m \<in> set (extractFromLists doc) \<or> m \<in> set (extractFromDivStructure doc)
   \<or> m \<in> set (extractFromTableFormat doc) \<or> m \<in> set (extractFromCommonPlatforms doc)"
  using dedupLoop_subset [of question "runStrategies extractStrategies doc []" "{}"]
  by (auto simp: extractAll_def deduplicate_def runStrategies_concat extractStrategies_def
      split: sum.splits)

lemma parseQuestionBlock_options:
  "parseQuestionBlock b = Some m \<Longrightarrow> 2 \<le> length (poptions m) \<and> length (poptions m) \<le> 6"
  by (auto simp: parseQuestionBlock_def Let_def split: if_splits prod.splits)

lemma numberBlocks_options:
  "m \<in> set (numberBlocks ms) \<Longrightarrow> 2 \<le> length (poptions m) \<and> length (poptions m) \<le> 6"
  using parseQuestionBlock_options
  by (fastforce simp: numberBlocks_def split: option.splits)

lemma parseBlockQuestions_options:
  "m \<in> set (parseBlockQuestions txt) \<Longrightarrow> 2 \<le> length (poptions m) \<and> length (poptions m) \<le> 6"
  using parseQuestionBlock_options
  by (fastforce simp: parseBlockQuestions_def split: option.splits if_splits)

lemma parse_subset:
  "m \<in> set (parse txt) \<Longrightarrow>
   m \<in> set (parseNumberedQuestions txt) \<or> m \<in> set (parseQPrefixedQuestions txt)
   \<or> m \<in> set (parseBlockQuestions txt)"
  using dedupLoop_subset [of pquestion "runStrategies parseStrategies txt []" "{}"]
  by (auto simp: parse_def deduplicateParsed_def runStrategies_concat parseStrategies_def
      split: if_splits)

text \<open>
  C2, as amended. Every MCQ that \<open>extractAll\<close> returns has at least two options, and at
  most six when it comes from the list, div or table strategy (the radio-group strategy
  and the platform templates test \<open>options.length > 1\<close> only); every MCQ that \<open>parse\<close>
  returns has between two and six options.
\<close>

theorem option_count_bounds:
  "(\<forall>m \<in> set (extractAll doc).
      2 \<le> length (options m)
      \<and> (mcqType m = ListType \<or> mcqType m = DivType \<or> mcqType m = TableType
           \<longrightarrow> length (options m) \<le> 6))
   \<and> (\<forall>m \<in> set (parse txt). 2 \<le> length (poptions m) \<and> length (poptions m) \<le> 6)"
proof (intro conjI ballI)
  fix m assume "m \<in> set (extractAll doc)"
  then consider r where "extractFromRadioButtons doc = Inr r" "m \<in> set r"
    | "m \<in> set (extractFromLists doc)" | "m \<in> set (extractFromDivStructure doc)"
    | "m \<in> set (extractFromTableFormat doc)" | "m \<in> set (extractFromCommonPlatforms doc)"
    using extractAll_subset by blast
  then have "2 \<le> length (options m)
      \<and> (mcqType m = ListType \<or> mcqType m = DivType \<or> mcqType m = TableType
           \<longrightarrow> length (options m) \<le> 6)"
  proof cases
    case 1
    then show ?thesis using extractFromRadioButtons_options by fastforce
  next
    case 2
    then show ?thesis using extractFromLists_options by blast
  next
    case 3
    then show ?thesis using extractFromDivStructure_options by blast
  next
    case 4
    then show ?thesis using extractFromTableFormat_options by blast
  next
    case 5
    then show ?thesis using extractFromCommonPlatforms_options [of m doc] by auto
  qed
  then show "2 \<le> length (options m)"
    and "mcqType m = ListType \<or> mcqType m = DivType \<or> mcqType m = TableType
           \<longrightarrow> length (options m) \<le> 6"
    by simp_all
next
  fix m assume "m \<in> set (parse txt)"
  then have "2 \<le> length (poptions m) \<and> length (poptions m) \<le> 6"
    using parse_subset [of m "txt"] numberBlocks_options [of m] parseBlockQuestions_options [of m "txt"]
    by (auto simp: parseNumberedQuestions_def parseQPrefixedQuestions_def)
  then show "2 \<le> length (poptions m)" and "length (poptions m) \<le> 6" by simp_all
qed

theorem option_count_bounds_witness:
  "extractAll throwingDocument \<noteq> []
   \<and> length (options (hd (extractAll throwingDocument))) = 2
   \<and> mcqType (hd (extractAll throwingDocument)) = TableType
   \<and> parse arithmeticText \<noteq> []
   \<and> length (poptions (hd (parse arithmeticText))) = 4"
proof -
  have "trim (toLowerCase ''Which one is a fruit?'') = ''which one is a fruit?''"
    by (simp add: char_eval)
  then have "extractAll throwingDocument
       = [\<lparr>question = ''Which one is a fruit?'', questionElement = 2,
           options = [nodeOption (3, ''Apple''), nodeOption (4, ''Granite'')],
           mcqType = TableType, groupName = None\<rparr>]"
    by (simp add: extractAll_def extractStrategies_def deduplicate_def extractFromRadioButtons_def
        extractFromLists_def extractFromDivStructure_def extractFromCommonPlatforms_def
        extractFromTableFormat_def throwingDocument_def emptyDocument_def objectPrototypeKeys_def
        Let_def)
  then show ?thesis
    using option_count_bounds [of throwingDocument arithmeticText]
    by (simp add: parse_arithmeticText)
qed

text \<open>
  The claim as stated fails: a group of seven radio buttons is returned with its seven
  options.
\<close>

theorem option_count_bounds_counterexample:
  "length (extractAll scaleDocument) = 1
   \<and> length (options (hd (extractAll scaleDocument))) = 7"
  by (simp add: extractAll_def extractStrategies_def deduplicate_def extractFromRadioButtons_def
      scaleDocument_def emptyDocument_def scaleRadio_def addToGroup_def objectPrototypeKeys_def
      objectEntries_def isArrayIndex_def isDigit_def radioOption_def extractFromLists_def
      extractFromDivStructure_def extractFromTableFormat_def extractFromCommonPlatforms_def Let_def)

section \<open>The text parser, end to end\<close>

text \<open>
  C9. The five lines \<open>1. What is 2+2?\<close>, \<open>A. 2\<close>, \<open>B. 3\<close>, \<open>C. 4\<close>, \<open>D. 5\<close> parse to exactly one
  MCQ with the question \<open>What is 2+2?\<close>, the options 2, 3, 4, 5 in this order and the number 1.
\<close>

theorem parse_numbered_example:
  "parse ''1. What is 2+2?\<newline>A. 2\<newline>B. 3\<newline>C. 4\<newline>D. 5''
   = [\<lparr>pquestion = ''What is 2+2?'', poptions = [''2'', ''3'', ''4'', ''5''], pnumber = Some 1\<rparr>]"
  using parse_arithmeticText by (simp add: arithmeticText_def)

section \<open>The tiers of the resolvers\<close>

lemma find_first_split:
  "x \<in> set xs \<Longrightarrow> P x \<Longrightarrow>
   \<exists>before first after. xs = before @ first # after \<and> (\<forall>p \<in> set before. \<not> P p) \<and> P first
      \<and> find P xs = Some first"
proof (induction xs)
  case Nil
  then show ?case by simp
next
  case (Cons y ys)
  show ?case
  proof (cases "P y")
    case True
    then have "y # ys = [] @ y # ys \<and> (\<forall>p \<in> set []. \<not> P p) \<and> P y \<and> find P (y # ys) = Some y"
      by simp
    then show ?thesis by blast
  next
    case False
    with Cons.prems have "x \<in> set ys" by auto
    from Cons.IH [OF this Cons.prems(2)] obtain before first after
      where "ys = before @ first # after" "\<forall>p \<in> set before. \<not> P p" "P first"
        "find P ys = Some first" by blast
    with False have "y # ys = (y # before) @ first # after
        \<and> (\<forall>p \<in> set (y # before). \<not> P p) \<and> P first \<and> find P (y # ys) = Some first"
      by simp
    then show ?thesis by blast
  qed
qed

lemma find_Some_mem: "find P xs = Some x \<Longrightarrow> x \<in> set xs"
  by (induction xs) (auto split: if_splits)

lemma letterMatch_Some:
  "isSep s \<Longrightarrow>
   (c, i) \<in> set [(CHR ''A'', 0), (CHR ''B'', 1), (CHR ''C'', 2), (CHR ''D'', 3),
                  (CHR ''a'', 0), (CHR ''b'', 1), (CHR ''c'', 2), (CHR ''d'', 3)] \<Longrightarrow>
   letterMatch (c # s # rest) = Some i"
  by (auto simp: letterMatch_def)

lemma letterMatch_other:
  "c \<notin> set ''ABCDabcd'' \<Longrightarrow> letterMatch (c # rest) = None"
  by (auto simp: letterMatch_def split: list.splits)

lemma clean_examples:
  "trim (toLowerCase ''New York'') = ''new york''"
  "trim (toLowerCase ''new  york'') = ''new  york''"
  "trim (toLowerCase ''Paris'') = ''paris''"
  "trim (toLowerCase ''Berlin'') = ''berlin''"
  "trim (toLowerCase ''Rome'') = ''rome''"
  "trim (toLowerCase ''  BERLIN '') = ''berlin''"
  "trim (toLowerCase ''B) Berlin'') = ''b) berlin''"
  "trim (toLowerCase ''B. x'') = ''b. x''"
  "trim (toLowerCase ''E) q'') = ''e) q''"
  "trim (toLowerCase ''1'') = ''1''"
  "trim (toLowerCase ''2'') = ''2''"
  "trim (toLowerCase ''3'') = ''3''"
  "trim (toLowerCase ''4'') = ''4''"
  "trim (toLowerCase ''5'') = ''5''"
  by (simp_all add: char_eval)

lemma lev_examples:
  "levenshteinDistance ''new  york'' ''new york'' = 1"
  "levenshteinDistance ''e) q'' ''1'' = 4"
  "levenshteinDistance ''e) q'' ''2'' = 4"
  "levenshteinDistance ''e) q'' ''3'' = 4"
  "levenshteinDistance ''e) q'' ''4'' = 4"
  "levenshteinDistance ''e) q'' ''5'' = 4"
  by (simp_all add: levenshteinDistance_def)

text \<open>
  C1, as amended. When the lower-cased, trimmed answer equals the lower-cased, trimmed
  text of some option, both resolvers return, through the exact tier, the first option of
  the list with that normalised text; no later tier is reached.
\<close>

theorem exact_match_wins:
  "(option \<in> set opts \<and> trim (toLowerCase (otext option)) = trim (toLowerCase ans) \<longrightarrow>
      (\<exists>before first after.
         opts = before @ first # after
         \<and> (\<forall>p \<in> set before. trim (toLowerCase (otext p)) \<noteq> trim (toLowerCase ans))
         \<and> trim (toLowerCase (otext first)) = trim (toLowerCase ans)
         \<and> findMatchingOptionTier opts ans = Some (Exact, first)
         \<and> findMatchingOption opts ans = Some first))
   \<and> (choice \<in> set choices \<and> trim (toLowerCase choice) = trim (toLowerCase ans) \<longrightarrow>
      (\<exists>before first after.
         choices = before @ first # after
         \<and> (\<forall>p \<in> set before. trim (toLowerCase p) \<noteq> trim (toLowerCase ans))
         \<and> trim (toLowerCase first) = trim (toLowerCase ans)
         \<and> matchAnswerToOptionTier ans choices = Some (Exact, first)
         \<and> matchAnswerToOption ans choices = Some first))"
proof (intro conjI impI)
  assume "option \<in> set opts \<and> trim (toLowerCase (otext option)) = trim (toLowerCase ans)"
  then obtain before first after where
    "opts = before @ first # after"
    "\<forall>p \<in> set before. trim (toLowerCase (otext p)) \<noteq> trim (toLowerCase ans)"
    "trim (toLowerCase (otext first)) = trim (toLowerCase ans)"
    "find (\<lambda>p. trim (toLowerCase (otext p)) = trim (toLowerCase ans)) opts = Some first"
    using find_first_split [of option opts "\<lambda>p. trim (toLowerCase (otext p)) = trim (toLowerCase ans)"]
    by blast
  then show "\<exists>before first after.
         opts = before @ first # after
         \<and> (\<forall>p \<in> set before. trim (toLowerCase (otext p)) \<noteq> trim (toLowerCase ans))
         \<and> trim (toLowerCase (otext first)) = trim (toLowerCase ans)
         \<and> findMatchingOptionTier opts ans = Some (Exact, first)
         \<and> findMatchingOption opts ans = Some first"
    by (intro exI [of _ before] exI [of _ first] exI [of _ after])
       (simp add: findMatchingOption_def findMatchingOptionTier_def exactTier_def)
next
  assume "choice \<in> set choices \<and> trim (toLowerCase choice) = trim (toLowerCase ans)"
  then obtain before first after where
    "choices = before @ first # after"
    "\<forall>p \<in> set before. trim (toLowerCase p) \<noteq> trim (toLowerCase ans)"
    "trim (toLowerCase first) = trim (toLowerCase ans)"
    "find (\<lambda>p. trim (toLowerCase p) = trim (toLowerCase ans)) choices = Some first"
    using find_first_split [of choice choices "\<lambda>p. trim (toLowerCase p) = trim (toLowerCase ans)"]
    by blast
  then show "\<exists>before first after.
         choices = before @ first # after
         \<and> (\<forall>p \<in> set before. trim (toLowerCase p) \<noteq> trim (toLowerCase ans))
         \<and> trim (toLowerCase first) = trim (toLowerCase ans)
         \<and> matchAnswerToOptionTier ans choices = Some (Exact, first)
         \<and> matchAnswerToOption ans choices = Some first"
    by (intro exI [of _ before] exI [of _ first] exI [of _ after])
       (simp add: matchAnswerToOption_def matchAnswerToOptionTier_def)
qed

theorem exact_match_wins_witness:
  "plainOption ''Berlin'' \<in> set [plainOption ''Paris'', plainOption ''Berlin'']
   \<and> trim (toLowerCase (otext (plainOption ''Berlin''))) = trim (toLowerCase ''  BERLIN '')
   \<and> findMatchingOptionTier [plainOption ''Paris'', plainOption ''Berlin''] ''  BERLIN ''
       = Some (Exact, plainOption ''Berlin'')
   \<and> ''Berlin'' \<in> set [''Paris'', ''Berlin'']
   \<and> trim (toLowerCase ''Berlin'') = trim (toLowerCase ''  BERLIN '')
   \<and> matchAnswerToOptionTier ''  BERLIN '' [''Paris'', ''Berlin''] = Some (Exact, ''Berlin'')"
  using exact_match_wins [of "plainOption ''Berlin''" "[plainOption ''Paris'', plainOption ''Berlin'']"
      "''  BERLIN ''" "''Berlin''" "[''Paris'', ''Berlin'']"]
  by (simp add: findMatchingOptionTier_def exactTier_def matchAnswerToOptionTier_def
      plainOption_def clean_examples)

text \<open>
  The claim as stated fails for white space inside the text: \<open>new  york\<close>, with two spaces,
  equals the option \<open>New York\<close> up to case and white space, and \<open>findMatchingOption\<close> returns
  the option through the fuzzy tier.
\<close>

theorem exact_match_wins_counterexample:
  "findMatchingOptionTier [plainOption ''New York''] ''new  york''
     = Some (Fuzzy, plainOption ''New York'')"
  by (simp add: findMatchingOptionTier_def exactTier_def partialTier_def letterTier_def
      letterMatch_def fuzzyTier_def belowThreshold_def plainOption_def clean_examples
      lev_examples isSep_def isWhiteSpace_def)

text \<open>
  C5, as amended. For an answer that starts with one of the letters A to D, in either
  case, followed by \<open>.\<close>, \<open>)\<close>, \<open>:\<close> or white space, and that fails the exact and substring
  tiers, both resolvers return the option at the index of the letter (A is 0, D is 3)
  when the list is that long. An answer that starts with any other character has no
  letter match.
\<close>

theorem letter_tier_maps_A_to_D:
  "(ans = c # s # rest \<and> isSep s
      \<and> (c, i) \<in> set [(CHR ''A'', 0), (CHR ''B'', 1), (CHR ''C'', 2), (CHR ''D'', 3),
                        (CHR ''a'', 0), (CHR ''b'', 1), (CHR ''c'', 2), (CHR ''d'', 3)]
      \<and> i < length opts
      \<and> exactTier opts ans = None \<and> partialTier opts ans = None
    \<longrightarrow> findMatchingOptionTier opts ans = Some (Letter, opts ! i)
        \<and> findMatchingOption opts ans = Some (opts ! i))
   \<and> (ans = c # s # rest \<and> isSep s
      \<and> (c, i) \<in> set [(CHR ''A'', 0), (CHR ''B'', 1), (CHR ''C'', 2), (CHR ''D'', 3),
                        (CHR ''a'', 0), (CHR ''b'', 1), (CHR ''c'', 2), (CHR ''d'', 3)]
      \<and> i < length choices
      \<and> list_all (\<lambda>choice. trim (toLowerCase choice) \<noteq> trim (toLowerCase ans)
                    \<and> \<not> includes_str (trim (toLowerCase ans)) (trim (toLowerCase choice))
                    \<and> \<not> includes_str (trim (toLowerCase choice)) (trim (toLowerCase ans))) choices
    \<longrightarrow> matchAnswerToOptionTier ans choices = Some (Letter, choices ! i)
        \<and> matchAnswerToOption ans choices = Some (choices ! i))
   \<and> (other \<notin> set ''ABCDabcd'' \<longrightarrow> letterTier opts (other # tail) = None)"
proof (intro conjI impI)
  assume a: "ans = c # s # rest \<and> isSep s
      \<and> (c, i) \<in> set [(CHR ''A'', 0), (CHR ''B'', 1), (CHR ''C'', 2), (CHR ''D'', 3),
                        (CHR ''a'', 0), (CHR ''b'', 1), (CHR ''c'', 2), (CHR ''d'', 3)]
      \<and> i < length opts
      \<and> exactTier opts ans = None \<and> partialTier opts ans = None"
  then have m: "letterMatch ans = Some i" using letterMatch_Some [of s c i rest] by blast
  from a have t: "exactTier opts ans = None" "partialTier opts ans = None" "i < length opts"
    by blast+
  show "findMatchingOptionTier opts ans = Some (Letter, opts ! i)"
    and "findMatchingOption opts ans = Some (opts ! i)"
    by (simp_all add: findMatchingOption_def findMatchingOptionTier_def letterTier_def m t)
next
  assume a: "ans = c # s # rest \<and> isSep s
      \<and> (c, i) \<in> set [(CHR ''A'', 0), (CHR ''B'', 1), (CHR ''C'', 2), (CHR ''D'', 3),
                        (CHR ''a'', 0), (CHR ''b'', 1), (CHR ''c'', 2), (CHR ''d'', 3)]
      \<and> i < length choices
      \<and> list_all (\<lambda>choice. trim (toLowerCase choice) \<noteq> trim (toLowerCase ans)
                    \<and> \<not> includes_str (trim (toLowerCase ans)) (trim (toLowerCase choice))
                    \<and> \<not> includes_str (trim (toLowerCase choice)) (trim (toLowerCase ans))) choices"
  then have m: "letterMatch ans = Some i" using letterMatch_Some [of s c i rest] by blast
  from a have t:
    "find (\<lambda>choice. trim (toLowerCase choice) = trim (toLowerCase ans)) choices = None"
    "find (\<lambda>choice. includes_str (trim (toLowerCase ans)) (trim (toLowerCase choice))) choices = None"
    "find (\<lambda>choice. includes_str (trim (toLowerCase choice)) (trim (toLowerCase ans))) choices = None"
    "i < length choices"
    by (auto simp: find_None_iff list_all_iff)
  show "matchAnswerToOptionTier ans choices = Some (Letter, choices ! i)"
    and "matchAnswerToOption ans choices = Some (choices ! i)"
    by (simp_all add: matchAnswerToOption_def matchAnswerToOptionTier_def Let_def m t)
next
  assume "other \<notin> set ''ABCDabcd''"
  then show "letterTier opts (other # tail) = None"
    by (simp add: letterTier_def letterMatch_other)
qed

theorem letter_tier_maps_A_to_D_witness:
  "exactTier [plainOption ''Paris'', plainOption ''Berlin'', plainOption ''Rome''] ''B. x'' = None
   \<and> partialTier [plainOption ''Paris'', plainOption ''Berlin'', plainOption ''Rome''] ''B. x'' = None
   \<and> findMatchingOptionTier [plainOption ''Paris'', plainOption ''Berlin'', plainOption ''Rome'']
        ''B. x'' = Some (Letter, plainOption ''Berlin'')
   \<and> matchAnswerToOptionTier ''B. x'' [''Paris'', ''Berlin'', ''Rome''] = Some (Letter, ''Berlin'')
   \<and> letterTier [plainOption ''Paris'', plainOption ''Berlin'', plainOption ''Rome''] ''E. x'' = None"
  using letter_tier_maps_A_to_D
    [of "''B. x''" "CHR ''B''" "CHR ''.''" "'' x''" 1
        "[plainOption ''Paris'', plainOption ''Berlin'', plainOption ''Rome'']"
        "[''Paris'', ''Berlin'', ''Rome'']" "CHR ''E''" "''. x''"]
  by (simp add: exactTier_def partialTier_def plainOption_def clean_examples isSep_def)

text \<open>
  The claim as stated fails on its own example: \<open>B) Berlin\<close> contains \<open>berlin\<close>, so the substring
  tier returns \<open>Berlin\<close> before the letter tier is tried. It also fails for the letter E: with
  five options the answer \<open>E) q\<close> finds no option.
\<close>

theorem letter_tier_maps_A_to_D_counterexample:
  "findMatchingOptionTier [plainOption ''Paris'', plainOption ''Berlin'', plainOption ''Rome'']
      ''B) Berlin'' = Some (Substring, plainOption ''Berlin'')
   \<and> matchAnswerToOptionTier ''B) Berlin'' [''Paris'', ''Berlin'', ''Rome'']
       = Some (Substring, ''Berlin'')
   \<and> findMatchingOptionTier
        [plainOption ''1'', plainOption ''2'', plainOption ''3'', plainOption ''4'', plainOption ''5'']
        ''E) q'' = None"
  by (simp add: findMatchingOptionTier_def exactTier_def partialTier_def letterTier_def
      letterMatch_def fuzzyTier_def belowThreshold_def matchAnswerToOptionTier_def
      plainOption_def clean_examples lev_examples isSep_def isWhiteSpace_def)

text \<open>
  C7, as amended. With an empty option list both resolvers return their no-match value;
  the error for an empty list is thrown by \<open>answerMCQ\<close>, before the provider is called.
\<close>

theorem empty_options_give_no_match:
  "findMatchingOptionTier [] ans = None
   \<and> findMatchingOption [] ans = None
   \<and> matchAnswerToOptionTier ans [] = None
   \<and> matchAnswerToOption ans [] = None
   \<and> answerMCQ callProvider parseAIResponse quest []
       = Inl (Error ''Invalid question or options'')"
proof -
  have "fuzzyTier [] ans = None"
    by (simp add: fuzzyTier_def belowThreshold_def)
  moreover have "letterTier [] ans = None"
    by (simp add: letterTier_def split: option.splits)
  ultimately have "findMatchingOptionTier [] ans = None"
    by (simp add: findMatchingOptionTier_def exactTier_def partialTier_def)
  moreover have "matchAnswerToOptionTier ans [] = None"
    by (simp add: matchAnswerToOptionTier_def split: option.splits)
  ultimately show ?thesis
    by (simp add: findMatchingOption_def matchAnswerToOption_def answerMCQ_def)
qed

text \<open>The claim as stated fails: the resolvers return \<open>null\<close> quietly.\<close>

theorem empty_options_give_no_match_counterexample:
  "findMatchingOption [] ''Paris'' = None \<and> matchAnswerToOption ''Paris'' [] = None"
  by (simp add: findMatchingOption_def findMatchingOptionTier_def exactTier_def partialTier_def
      letterTier_def letterMatch_def fuzzyTier_def belowThreshold_def matchAnswerToOption_def
      matchAnswerToOptionTier_def)

text \<open>
  C10. For a list of options that is not empty, \<open>_fallbackParse\<close> answers with an element of
  the list and the confidence 50, 40 or 20; when neither a letter within range nor an
  option text is found in the response, it answers with the first option and 20.
\<close>

theorem fallbackParse_answers_from_options:
  "opts \<noteq> [] \<longrightarrow>
     (\<exists>option \<in> set opts. answer (fallbackParse response opts) = Some option)
     \<and> confidence (fallbackParse response opts) \<in> {50, 40, 20}
     \<and> ((case fallbackLetter False response of Some i \<Rightarrow> length opts \<le> i | None \<Rightarrow> True)
          \<and> list_all (\<lambda>option. \<not> includes_str (toLowerCase response) (toLowerCase option)) opts
        \<longrightarrow> answer (fallbackParse response opts) = Some (hd opts)
            \<and> confidence (fallbackParse response opts) = 20)"
proof
  assume ne: "opts \<noteq> []"
  then obtain first others where opts: "opts = first # others" by (cases opts) auto
  show "(\<exists>option \<in> set opts. answer (fallbackParse response opts) = Some option)
     \<and> confidence (fallbackParse response opts) \<in> {50, 40, 20}
     \<and> ((case fallbackLetter False response of Some i \<Rightarrow> length opts \<le> i | None \<Rightarrow> True)
          \<and> list_all (\<lambda>option. \<not> includes_str (toLowerCase response) (toLowerCase option)) opts
        \<longrightarrow> answer (fallbackParse response opts) = Some (hd opts)
            \<and> confidence (fallbackParse response opts) = 20)"
  proof (intro conjI impI)
    show "\<exists>option \<in> set opts. answer (fallbackParse response opts) = Some option"
      using ne unfolding fallbackParse_def
      by (auto split: option.splits list.splits dest: find_Some_mem)
    show "confidence (fallbackParse response opts) \<in> {50, 40, 20}"
      unfolding fallbackParse_def by (auto split: option.splits)
  next
    assume a: "(case fallbackLetter False response of Some i \<Rightarrow> length opts \<le> i | None \<Rightarrow> True)
          \<and> list_all (\<lambda>option. \<not> includes_str (toLowerCase response) (toLowerCase option)) opts"
    then have "find (\<lambda>option. includes_str (toLowerCase response) (toLowerCase option)) opts = None"
      by (auto simp: find_None_iff list_all_iff)
    with a show "answer (fallbackParse response opts) = Some (hd opts)"
      and "confidence (fallbackParse response opts) = 20"
      unfolding fallbackParse_def opts by (auto split: option.splits)
  qed
qed

theorem fallbackParse_answers_from_options_witness:
  "[''x'', ''y''] \<noteq> []
   \<and> answer (fallbackParse ''I think the answer is B. because'' [''x'', ''y'']) = Some ''y''
   \<and> confidence (fallbackParse ''I think the answer is B. because'' [''x'', ''y'']) = 50
   \<and> answer (fallbackParse ''no idea'' [''x'', ''y'']) = Some ''x''
   \<and> confidence (fallbackParse ''no idea'' [''x'', ''y'']) = 20"
  using fallbackParse_answers_from_options [of "[''x'', ''y'']" "''I think the answer is B. because''"]
    fallbackParse_answers_from_options [of "[''x'', ''y'']" "''no idea''"]
  by (simp add: fallbackParse_def char_eval isWordChar_def)

section \<open>Removing option markers\<close>

lemma sep_not_digit: "isSep c \<Longrightarrow> \<not> isDigit c"
  by (auto simp: isSep_def isDigit_def isWhiteSpace_def)

lemma paren_not_digit: "\<not> isDigit (CHR '')'')"
  by (simp add: isDigit_def)

lemma takeWhile_takeWhile_stop:
  "\<not> P y \<Longrightarrow> takeWhile P (takeWhile P xs @ y # ys) = takeWhile P xs"
  by (induction xs) auto

lemma dropWhile_takeWhile_stop:
  "\<not> P y \<Longrightarrow> dropWhile P (takeWhile P xs @ y # ys) = y # ys"
  by (induction xs) auto

lemma digit_not_letter: "isDigit c \<Longrightarrow> \<not> isLetter c"
  by (auto simp: isDigit_def isLetter_def isUpper_def isLower_def)

lemma paren_open_plain: "\<not> isLetter (CHR ''('') \<and> \<not> isDigit (CHR ''('')"
  by (simp add: isDigit_def isLetter_def isUpper_def isLower_def)

lemma dropWhile_none: "takeWhile P xs = [] \<Longrightarrow> dropWhile P xs = xs"
  by (cases xs) (auto split: if_splits)

lemma dropWhile_all: "list_all P xs \<Longrightarrow> dropWhile P (xs @ ys) = dropWhile P ys"
  by (induction xs) auto

lemma trim_dropWhile: "trim (dropWhile isWhiteSpace s) = trim s"
  by (simp add: trim_def)

lemma letterRun_removed:
  assumes "letterRun m" and "takeWhile isSep rest = []"
  shows "letterMarker (m @ rest) \<and> removeLetterMarker (m @ rest) = rest"
proof -
  from assms(1) obtain c tail where "m = c # tail" and c: "isLetter c"
    and "tail \<noteq> []" and "list_all isSep tail"
    by (auto simp: letterRun_def split: list.splits)
  then obtain p seps where m: "m = c # p # seps" and p: "isSep p"
    and seps: "list_all isSep seps"
    by (cases tail) auto
  have marker: "letterMarker (m @ rest)" using c p by (simp add: letterMarker_def m)
  have "dropWhile isSep ((p # seps) @ rest) = dropWhile isSep rest"
    using p seps by (intro dropWhile_all) simp
  then have "removeLetterMarker (m @ rest) = rest"
    using marker dropWhile_none [OF assms(2)] by (simp add: removeLetterMarker_def m)
  with marker show ?thesis by simp
qed

lemma digitRun_removed:
  assumes "digitRun m" and "takeWhile isSep rest = []"
  shows "\<not> letterMarker (m @ rest) \<and> digitMarker (m @ rest)
         \<and> removeDigitMarker (m @ rest) = rest"
proof -
  let ?ds = "takeWhile isDigit m"
  from assms(1) have ds: "?ds \<noteq> []" and "dropWhile isDigit m \<noteq> []"
    and "list_all isSep (dropWhile isDigit m)"
    by (simp_all add: digitRun_def)
  then obtain p seps where r: "dropWhile isDigit m = p # seps"
    and all: "list_all isSep (p # seps)"
    by (cases "dropWhile isDigit m") auto
  have p: "isSep p" using all by simp
  have m: "m = ?ds @ p # seps" using r takeWhile_dropWhile_id [of isDigit m] by simp
  have line: "m @ rest = ?ds @ p # (seps @ rest)" using m by (metis append_Cons append_assoc)
  have tw: "takeWhile isDigit (m @ rest) = ?ds"
    unfolding line using sep_not_digit [OF p] by (rule takeWhile_takeWhile_stop)
  have dw: "dropWhile isDigit (m @ rest) = p # (seps @ rest)"
    unfolding line using sep_not_digit [OF p] by (rule dropWhile_takeWhile_stop)
  obtain d ds' where d: "?ds = d # ds'" using ds by (cases ?ds) auto
  then have "d \<in> set ?ds" by simp
  then have "isDigit d" by (rule set_takeWhileD [THEN conjunct2])
  then have noletter: "\<not> letterMarker (m @ rest)"
    using digit_not_letter [of d] unfolding line d by (simp add: letterMarker_def split: list.splits)
  have marker: "digitMarker (m @ rest)"
    using ds p by (simp add: digitMarker_def tw dw)
  have "dropWhile isSep ((p # seps) @ rest) = dropWhile isSep rest"
    using all by (rule dropWhile_all)
  then have "removeDigitMarker (m @ rest) = rest"
    using marker dropWhile_none [OF assms(2)] by (simp add: removeDigitMarker_def dw)
  with noletter marker show ?thesis by simp
qed

lemma parenLetterRun_removed:
  assumes "parenLetterRun m" and "takeWhile isWhiteSpace rest = []"
  shows "\<not> letterMarker (m @ rest) \<and> \<not> digitMarker (m @ rest)
         \<and> parenLetterMarker (m @ rest) \<and> removeParenLetterMarker (m @ rest) = rest"
proof -
  from assms(1) obtain c ws where m: "m = CHR ''('' # c # CHR '')'' # ws" and c: "isLetter c"
    and ws: "list_all isWhiteSpace ws"
    by (auto simp: parenLetterRun_def split: list.splits)
  have a: "\<not> letterMarker (m @ rest)"
    using paren_open_plain by (simp add: letterMarker_def m)
  have b: "\<not> digitMarker (m @ rest)"
    using paren_open_plain by (simp add: digitMarker_def m)
  have marker: "parenLetterMarker (m @ rest)" using c by (simp add: parenLetterMarker_def m)
  have "dropWhile isWhiteSpace (ws @ rest) = dropWhile isWhiteSpace rest"
    using ws by (rule dropWhile_all)
  then have "removeParenLetterMarker (m @ rest) = rest"
    using marker dropWhile_none [OF assms(2)] by (simp add: removeParenLetterMarker_def m)
  with a b marker show ?thesis by simp
qed

lemma parenDigitRun_removed:
  assumes "parenDigitRun m"
  shows "\<not> letterMarker (m @ rest) \<and> \<not> digitMarker (m @ rest)
         \<and> \<not> parenLetterMarker (m @ rest) \<and> parenDigitMarker (m @ rest)
         \<and> trim (removeParenDigitMarker (m @ rest)) = trim rest"
proof -
  from assms obtain t ws where m: "m = CHR ''('' # t" and ds: "takeWhile isDigit t \<noteq> []"
    and r: "dropWhile isDigit t = CHR '')'' # ws" and ws: "list_all isWhiteSpace ws"
    by (auto simp: parenDigitRun_def split: list.splits)
  let ?ds = "takeWhile isDigit t"
  have t: "t = ?ds @ CHR '')'' # ws" using r takeWhile_dropWhile_id [of isDigit t] by simp
  have line: "t @ rest = ?ds @ CHR '')'' # (ws @ rest)" using t by (metis append_Cons append_assoc)
  have tw: "takeWhile isDigit (t @ rest) = ?ds"
    unfolding line using paren_not_digit by (rule takeWhile_takeWhile_stop)
  have dw: "dropWhile isDigit (t @ rest) = CHR '')'' # (ws @ rest)"
    unfolding line using paren_not_digit by (rule dropWhile_takeWhile_stop)
  obtain d ds' where d: "?ds = d # ds'" using ds by (cases ?ds) auto
  then have "d \<in> set ?ds" by simp
  then have "isDigit d" by (rule set_takeWhileD [THEN conjunct2])
  then have dl: "\<not> isLetter d" by (rule digit_not_letter)
  have a: "\<not> letterMarker (m @ rest)"
    using paren_open_plain by (simp add: letterMarker_def m split: list.splits)
  have b: "\<not> digitMarker (m @ rest)"
    using paren_open_plain by (simp add: digitMarker_def m)
  have c: "\<not> parenLetterMarker (m @ rest)"
    using dl unfolding m append_Cons line d
    by (simp add: parenLetterMarker_def split: list.splits)
  have marker: "parenDigitMarker (m @ rest)"
    using ds by (simp add: parenDigitMarker_def m tw dw)
  have "dropWhile isWhiteSpace (ws @ rest) = dropWhile isWhiteSpace rest"
    using ws by (rule dropWhile_all)
  then have "removeParenDigitMarker (m @ rest) = dropWhile isWhiteSpace rest"
    using marker by (simp add: removeParenDigitMarker_def m dw)
  then have "trim (removeParenDigitMarker (m @ rest)) = trim rest"
    by (simp add: trim_dropWhile)
  with a b c marker show ?thesis by simp
qed

text \<open>
  C6, as amended. A line that starts with an option marker, and whose rest does not start
  with a marker that a later replacement of the chain deletes, loses exactly that marker:
  \<open>cleanOption\<close> returns the rest, trimmed. The markers are a letter followed by one or more
  of \<open>.\<close>, \<open>)\<close>, \<open>:\<close> and white space; digits followed by one or more of these; a letter in
  parentheses and the white space after it; digits in parentheses and the white space
  after it. The replacements are tried in this order, so the rest may start with a marker
  of the same or of an earlier kind and keeps it. A line that no pattern matches comes
  back trimmed. \<open>cleanOptionText\<close> knows the first two kinds of marker only. Nothing is
  said here of a rest that starts with a marker of a later kind.
\<close>

theorem cleanOption_removes_leading_marker:
  "(letterRun m \<and> takeWhile isSep rest = []
      \<and> \<not> digitMarker rest \<and> \<not> parenLetterMarker rest \<and> \<not> parenDigitMarker rest
    \<longrightarrow> cleanOption (m @ rest) = trim rest)
   \<and> (digitRun m \<and> takeWhile isSep rest = []
      \<and> \<not> parenLetterMarker rest \<and> \<not> parenDigitMarker rest
    \<longrightarrow> cleanOption (m @ rest) = trim rest)
   \<and> (parenLetterRun m \<and> takeWhile isWhiteSpace rest = [] \<and> \<not> parenDigitMarker rest
    \<longrightarrow> cleanOption (m @ rest) = trim rest)
   \<and> (parenDigitRun m \<longrightarrow> cleanOption (m @ rest) = trim rest)
   \<and> (\<not> looksLikeOption line \<longrightarrow> cleanOption line = trim line)
   \<and> (letterRun m \<and> takeWhile isSep rest = [] \<and> \<not> digitMarker rest
    \<longrightarrow> cleanOptionText (m @ rest) = trim rest)
   \<and> (digitRun m \<and> takeWhile isSep rest = [] \<longrightarrow> cleanOptionText (m @ rest) = trim rest)
   \<and> (\<not> letterMarker line \<and> \<not> digitMarker line \<longrightarrow> cleanOptionText line = trim line)"
proof (intro conjI impI)
  assume "letterRun m \<and> takeWhile isSep rest = []
      \<and> \<not> digitMarker rest \<and> \<not> parenLetterMarker rest \<and> \<not> parenDigitMarker rest"
  then show "cleanOption (m @ rest) = trim rest"
    using letterRun_removed [of m rest]
    by (simp add: cleanOption_def removeDigitMarker_def removeParenLetterMarker_def
        removeParenDigitMarker_def)
next
  assume "digitRun m \<and> takeWhile isSep rest = []
      \<and> \<not> parenLetterMarker rest \<and> \<not> parenDigitMarker rest"
  then show "cleanOption (m @ rest) = trim rest"
    using digitRun_removed [of m rest]
    by (simp add: cleanOption_def removeLetterMarker_def removeParenLetterMarker_def
        removeParenDigitMarker_def)
next
  assume "parenLetterRun m \<and> takeWhile isWhiteSpace rest = [] \<and> \<not> parenDigitMarker rest"
  then show "cleanOption (m @ rest) = trim rest"
    using parenLetterRun_removed [of m rest]
    by (simp add: cleanOption_def removeLetterMarker_def removeDigitMarker_def
        removeParenDigitMarker_def)
next
  assume "parenDigitRun m"
  then show "cleanOption (m @ rest) = trim rest"
    using parenDigitRun_removed [of m rest]
    by (simp add: cleanOption_def removeLetterMarker_def removeDigitMarker_def
        removeParenLetterMarker_def)
next
  assume "\<not> looksLikeOption line"
  then have "line = [] \<or> (\<not> letterMarker line \<and> \<not> digitMarker line
      \<and> \<not> parenLetterMarker line \<and> \<not> parenDigitMarker line)"
    by (auto simp: looksLikeOption_def)
  moreover have "\<not> letterMarker [] \<and> \<not> digitMarker []
      \<and> \<not> parenLetterMarker [] \<and> \<not> parenDigitMarker []"
    by (simp add: letterMarker_def digitMarker_def parenLetterMarker_def parenDigitMarker_def)
  ultimately have "\<not> letterMarker line \<and> \<not> digitMarker line
      \<and> \<not> parenLetterMarker line \<and> \<not> parenDigitMarker line"
    by auto
  then show "cleanOption line = trim line"
    by (simp add: cleanOption_def removeLetterMarker_def removeDigitMarker_def
        removeParenLetterMarker_def removeParenDigitMarker_def)
next
  assume "letterRun m \<and> takeWhile isSep rest = [] \<and> \<not> digitMarker rest"
  then show "cleanOptionText (m @ rest) = trim rest"
    using letterRun_removed [of m rest]
    by (simp add: cleanOptionText_def removeDigitMarker_def)
next
  assume "digitRun m \<and> takeWhile isSep rest = []"
  then show "cleanOptionText (m @ rest) = trim rest"
    using digitRun_removed [of m rest]
    by (simp add: cleanOptionText_def removeLetterMarker_def)
next
  assume "\<not> letterMarker line \<and> \<not> digitMarker line"
  then show "cleanOptionText line = trim line"
    by (simp add: cleanOptionText_def removeLetterMarker_def removeDigitMarker_def)
qed

theorem cleanOption_removes_leading_marker_witness:
  "letterRun ''A. '' \<and> takeWhile isSep ''2'' = []
   \<and> digitMarker ''2'' = False \<and> parenLetterMarker ''2'' = False \<and> parenDigitMarker ''2'' = False
   \<and> cleanOption ''A. 2'' = ''2'' \<and> cleanOptionText ''A. 2'' = ''2''
   \<and> digitRun ''3) '' \<and> takeWhile isSep ''Madrid'' = []
   \<and> parenLetterMarker ''Madrid'' = False \<and> parenDigitMarker ''Madrid'' = False
   \<and> cleanOption ''3) Madrid'' = ''Madrid'' \<and> cleanOptionText ''3) Madrid'' = ''Madrid''
   \<and> parenLetterRun ''(B) '' \<and> takeWhile isWhiteSpace ''Berlin'' = []
   \<and> parenDigitMarker ''Berlin'' = False
   \<and> cleanOption ''(B) Berlin'' = ''Berlin''
   \<and> parenDigitRun ''(1) ''
   \<and> cleanOption ''(1) Rome'' = ''Rome''
   \<and> looksLikeOption ''Berlin'' = False \<and> letterMarker ''Berlin'' = False
   \<and> digitMarker ''Berlin'' = False
   \<and> cleanOption ''Berlin'' = ''Berlin'' \<and> cleanOptionText ''Berlin'' = ''Berlin''"
proof -
  have runs: "letterRun ''A. ''" "digitRun ''3) ''" "parenLetterRun ''(B) ''" "parenDigitRun ''(1) ''"
    by (simp_all add: letterRun_def digitRun_def parenLetterRun_def parenDigitRun_def char_eval)
  have rests: "takeWhile isSep ''2'' = []" "takeWhile isSep ''Madrid'' = []"
    "takeWhile isWhiteSpace ''Berlin'' = []"
    "\<not> digitMarker ''2''" "\<not> parenLetterMarker ''2''" "\<not> parenDigitMarker ''2''"
    "\<not> parenLetterMarker ''Madrid''" "\<not> parenDigitMarker ''Madrid''"
    "\<not> parenDigitMarker ''Berlin''" "\<not> looksLikeOption ''Berlin''"
    "\<not> letterMarker ''Berlin''" "\<not> digitMarker ''Berlin''"
    by (simp_all add: marker_eval char_eval)
  have trims: "trim ''2'' = ''2''" "trim ''Madrid'' = ''Madrid''" "trim ''Berlin'' = ''Berlin''"
    "trim ''Rome'' = ''Rome''"
    by (simp_all add: char_eval)
  have a: "cleanOption (''A. '' @ ''2'') = trim ''2'' \<and> cleanOptionText (''A. '' @ ''2'') = trim ''2''"
    using cleanOption_removes_leading_marker [of "''A. ''" "''2''"] runs rests by blast
  have b: "cleanOption (''3) '' @ ''Madrid'') = trim ''Madrid''
      \<and> cleanOptionText (''3) '' @ ''Madrid'') = trim ''Madrid''"
    using cleanOption_removes_leading_marker [of "''3) ''" "''Madrid''"] runs rests by blast
  have c: "cleanOption (''(B) '' @ ''Berlin'') = trim ''Berlin''"
    using cleanOption_removes_leading_marker [of "''(B) ''" "''Berlin''"] runs rests by blast
  have d: "cleanOption (''(1) '' @ ''Rome'') = trim ''Rome''"
    using cleanOption_removes_leading_marker [of "''(1) ''" "''Rome''"] runs by blast
  have e: "cleanOption ''Berlin'' = trim ''Berlin'' \<and> cleanOptionText ''Berlin'' = trim ''Berlin''"
    using cleanOption_removes_leading_marker [of _ _ "''Berlin''"] rests by blast
  show ?thesis
    using a b c d e runs rests by (simp add: trims)
qed

text \<open>
  The claim as stated fails: of \<open>A cat\<close> the letter is removed, though only a blank follows
  it, and a line that no pattern matches comes back trimmed, not unchanged.
\<close>

theorem cleanOption_removes_leading_marker_counterexample:
  "cleanOption ''A cat'' = ''cat''
   \<and> looksLikeOption '' x '' = False
   \<and> cleanOption '' x '' = ''x''"
  by (simp add: marker_eval char_eval)

text \<open>
  Where the rest starts with a marker of a later kind, the chained replacement deletes it
  too, and with it a part of the option: the source's comment promises the removal of the
  prefix only.
\<close>

lemma cleanOption_stacked_markers:
  "cleanOption ''A. 5 km'' = ''km'' \<and> cleanOptionText ''A. 5 km'' = ''km''"
  by (simp add: marker_eval cleanOptionText_def char_eval)

section \<open>The matrix computes the edit distance\<close>

lemma editDistance_Nil2: "editDistance xs [] = length xs"
  by (cases xs) simp_all

lemma edits_Nil_left: "edits [] ys (length ys)"
  by (induction ys) (auto intro: edits.intros)

lemma edits_Nil_right: "edits xs [] (length xs)"
  by (induction xs) (auto intro: edits.intros)

lemma edits_editDistance: "edits xs ys (editDistance xs ys)"
proof (induction xs ys rule: editDistance.induct)
  case (1 ys)
  show ?case by (simp add: edits_Nil_left)
next
  case (2 x xs)
  show ?case using edits_delete [OF edits_Nil_right [of xs], of x] by simp
next
  case (3 x xs y ys)
  let ?A = "editDistance xs ys + (if x = y then 0 else 1)"
  let ?B = "editDistance xs (y # ys) + 1"
  let ?C = "editDistance (x # xs) ys + 1"
  have A: "edits (x # xs) (y # ys) ?A"
    using "3.IH"(1) by (auto intro: edits.intros)
  have B: "edits (x # xs) (y # ys) ?B"
    using "3.IH"(2) by (auto intro: edits.intros)
  have C: "edits (x # xs) (y # ys) ?C"
    using "3.IH"(3) by (auto intro: edits.intros)
  have "editDistance (x # xs) (y # ys) = ?A \<or> editDistance (x # xs) (y # ys) = ?B
        \<or> editDistance (x # xs) (y # ys) = ?C"
    by (simp add: min_def)
  with A B C show ?case by metis
qed

lemma editDistance_delete: "editDistance (x # xs) ys \<le> Suc (editDistance xs ys)"
  by (cases ys) (simp_all add: editDistance_Nil2)

lemma editDistance_insert: "editDistance xs (y # ys) \<le> Suc (editDistance xs ys)"
  by (cases xs) simp_all

lemma editDistance_le: "edits xs ys n \<Longrightarrow> editDistance xs ys \<le> n"
proof (induction rule: edits.induct)
  case edits_nil
  show ?case by simp
next
  case (edits_keep xs ys n c)
  then show ?case by (simp add: min.coboundedI1)
next
  case (edits_delete xs ys n x)
  then show ?case using editDistance_delete [of x xs ys] by simp
next
  case (edits_insert xs ys n y)
  then show ?case using editDistance_insert [of xs y ys] by simp
next
  case (edits_substitute xs ys n x y)
  then show ?case by (simp add: min.coboundedI1)
qed

lemma edits_snoc_keep: "edits xs ys n \<Longrightarrow> edits (xs @ [c]) (ys @ [c]) n"
  by (induction rule: edits.induct) (auto intro: edits.intros)

lemma edits_snoc_delete: "edits xs ys n \<Longrightarrow> edits (xs @ [x]) ys (Suc n)"
  by (induction rule: edits.induct) (auto intro: edits.intros)

lemma edits_snoc_insert: "edits xs ys n \<Longrightarrow> edits xs (ys @ [y]) (Suc n)"
  by (induction rule: edits.induct) (auto intro: edits.intros)

lemma edits_snoc_substitute: "edits xs ys n \<Longrightarrow> edits (xs @ [x]) (ys @ [y]) (Suc n)"
  by (induction rule: edits.induct) (auto intro: edits.intros)

lemma edits_rev: "edits xs ys n \<Longrightarrow> edits (rev xs) (rev ys) n"
  by (induction rule: edits.induct)
     (auto intro: edits_nil edits_snoc_keep edits_snoc_delete edits_snoc_insert edits_snoc_substitute)

lemma edits_sym: "edits xs ys n \<Longrightarrow> edits ys xs n"
  by (induction rule: edits.induct) (auto intro: edits.intros)

lemma editDistance_rev: "editDistance (rev xs) (rev ys) = editDistance xs ys"
proof (rule antisym)
  show "editDistance (rev xs) (rev ys) \<le> editDistance xs ys"
    using editDistance_le [OF edits_rev [OF edits_editDistance [of xs ys]]] .
  show "editDistance xs ys \<le> editDistance (rev xs) (rev ys)"
    using editDistance_le [OF edits_rev [OF edits_editDistance [of "rev xs" "rev ys"]]] by simp
qed

lemma editDistance_sym: "editDistance xs ys = editDistance ys xs"
  using editDistance_le [OF edits_sym [OF edits_editDistance [of xs ys]]]
    editDistance_le [OF edits_sym [OF edits_editDistance [of ys xs]]]
  by simp

lemma editDistance_drop_right: "editDistance xs ys \<le> Suc (editDistance xs (y # ys))"
proof (induction xs arbitrary: ys y)
  case Nil
  show ?case by simp
next
  case (Cons x xs)
  have "editDistance (x # xs) ys \<le> Suc (editDistance xs ys)"
    by (rule editDistance_delete)
  moreover have "editDistance xs ys \<le> Suc (editDistance xs (y # ys))"
    by (rule Cons.IH)
  ultimately show ?case by (simp add: min_def)
qed

lemma editDistance_drop_left: "editDistance xs ys \<le> Suc (editDistance (x # xs) ys)"
  using editDistance_drop_right [of ys xs x] by (simp add: editDistance_sym [of _ ys])

lemma editDistance_Cons_Cons:
  "editDistance (x # xs) (y # ys) =
     (if x = y then editDistance xs ys
      else min (min (editDistance xs ys + 1) (editDistance xs (y # ys) + 1))
               (editDistance (x # xs) ys + 1))"
  using editDistance_drop_right [of xs ys y] editDistance_drop_left [of xs ys x]
  by (simp add: min_def)

lemma editDistance_snoc_snoc:
  "editDistance (xs @ [x]) (ys @ [y]) =
     (if x = y then editDistance xs ys
      else min (min (editDistance xs ys + 1) (editDistance xs (ys @ [y]) + 1))
               (editDistance (xs @ [x]) ys + 1))"
proof -
  have "editDistance (xs @ [x]) (ys @ [y]) = editDistance (x # rev xs) (y # rev ys)"
    using editDistance_rev [of "xs @ [x]" "ys @ [y]"] by simp
  also have "\<dots> = (if x = y then editDistance (rev xs) (rev ys)
      else min (min (editDistance (rev xs) (rev ys) + 1) (editDistance (rev xs) (y # rev ys) + 1))
               (editDistance (x # rev xs) (rev ys) + 1))"
    by (rule editDistance_Cons_Cons)
  also have "\<dots> = (if x = y then editDistance xs ys
      else min (min (editDistance xs ys + 1) (editDistance xs (ys @ [y]) + 1))
               (editDistance (xs @ [x]) ys + 1))"
    using editDistance_rev [of xs ys] editDistance_rev [of xs "ys @ [y]"]
      editDistance_rev [of "xs @ [x]" ys]
    by simp
  finally show ?thesis .
qed

lemma matrixRow_Nil: "matrixRow a1 [] bs = [editDistance a1 bs]"
  by (simp add: matrixRow_def)

lemma matrixRow_Cons:
  "matrixRow a1 (ac # as) bs = editDistance a1 bs # matrixRow (a1 @ [ac]) as bs"
proof -
  have "[0..<Suc (Suc (length as))] = 0 # map Suc [0..<Suc (length as)]"
    by (simp only: map_Suc_upt upt_conv_Cons [of 0 "Suc (Suc (length as))"])
  then show ?thesis
    by (simp add: matrixRow_def comp_def del: upt_Suc)
qed

lemma matrixRow_hd: "matrixRow a1 a2 bs = editDistance a1 bs # tl (matrixRow a1 a2 bs)"
  by (cases a2) (simp_all add: matrixRow_Nil matrixRow_Cons)

lemma fillRow_matrixRow:
  "fillRow bc a2 (matrixRow a1 a2 bs) (editDistance a1 (bs @ [bc]))
     = tl (matrixRow a1 a2 (bs @ [bc]))"
proof (induction a2 arbitrary: a1)
  case Nil
  show ?case by (simp add: matrixRow_Nil)
next
  case (Cons ac as)
  obtain rest where rest: "matrixRow (a1 @ [ac]) as bs = editDistance (a1 @ [ac]) bs # rest"
    using matrixRow_hd [of "a1 @ [ac]" as bs] by blast
  let ?v = "editDistance (a1 @ [ac]) (bs @ [bc])"
  have v: "(if bc = ac then editDistance a1 bs
            else min (min (editDistance a1 bs + 1) (editDistance a1 (bs @ [bc]) + 1))
                     (editDistance (a1 @ [ac]) bs + 1)) = ?v"
    using editDistance_snoc_snoc [of a1 ac bs bc] by auto
  have "fillRow bc (ac # as) (matrixRow a1 (ac # as) bs) (editDistance a1 (bs @ [bc]))
        = ?v # fillRow bc as (matrixRow (a1 @ [ac]) as bs) ?v"
    unfolding matrixRow_Cons rest fillRow.simps list.case Let_def v ..
  also have "\<dots> = ?v # tl (matrixRow (a1 @ [ac]) as (bs @ [bc]))"
    using Cons.IH [of "a1 @ [ac]"] by simp
  also have "\<dots> = matrixRow (a1 @ [ac]) as (bs @ [bc])"
    using matrixRow_hd [of "a1 @ [ac]" as "bs @ [bc]"] by simp
  also have "\<dots> = tl (matrixRow a1 (ac # as) (bs @ [bc]))"
    by (simp add: matrixRow_Cons)
  finally show ?case .
qed

lemma levRows_matrixRow:
  "levRows a (Suc (length bs1)) bs2 (matrixRow [] a bs1) = matrixRow [] a (bs1 @ bs2)"
proof (induction bs2 arbitrary: bs1)
  case Nil
  show ?case by simp
next
  case (Cons bc bs2)
  have "Suc (length bs1) # fillRow bc a (matrixRow [] a bs1) (Suc (length bs1))
        = matrixRow [] a (bs1 @ [bc])"
    using fillRow_matrixRow [of bc a "[]" bs1] matrixRow_hd [of "[]" a "bs1 @ [bc]"]
    by simp
  then show ?case using Cons.IH [of "bs1 @ [bc]"] by simp
qed

lemma matrixRow_first: "matrixRow [] a [] = [0..<Suc (length a)]"
proof -
  have "map (\<lambda>k. editDistance (take k a) []) [0..<Suc (length a)] = map (\<lambda>k. k) [0..<Suc (length a)]"
    by (rule map_cong) (auto simp: editDistance_Nil2)
  then show ?thesis by (simp add: matrixRow_def del: upt_Suc)
qed

lemma levenshteinDistance_editDistance: "levenshteinDistance a b = editDistance a b"
proof -
  have "levRows a 1 b [0..<Suc (length a)] = matrixRow [] a b"
    using levRows_matrixRow [of a "[]" b] by (simp add: matrixRow_first del: upt_Suc)
  then show ?thesis by (simp add: levenshteinDistance_def matrixRow_def)
qed

lemma levenshteinDistance_least:
  "edits a b (levenshteinDistance a b) \<and> (\<forall>n. edits a b n \<longrightarrow> levenshteinDistance a b \<le> n)"
  by (simp add: levenshteinDistance_editDistance edits_editDistance editDistance_le)

lemma belowThreshold_real:
  "belowThreshold (enat d) n = (real d < 0.4 * real n)"
proof -
  have "(real d < 0.4 * real n) = (5 * real d < 2 * real n)" by (simp add: field_simps)
  also have "\<dots> = (real (5 * d) < real (2 * n))" by simp
  also have "\<dots> = (5 * d < 2 * n)" by (simp only: of_nat_less_iff)
  finally show ?thesis by (simp add: belowThreshold_def)
qed

section \<open>The fuzzy tier\<close>

lemma fuzzyLoop_invariant:
  "tried = before @ b # after \<Longrightarrow>
   (\<forall>p \<in> set before. levenshteinDistance ca (trim (toLowerCase (otext b)))
                        < levenshteinDistance ca (trim (toLowerCase (otext p)))) \<Longrightarrow>
   (\<forall>p \<in> set after. levenshteinDistance ca (trim (toLowerCase (otext b)))
                       \<le> levenshteinDistance ca (trim (toLowerCase (otext p)))) \<Longrightarrow>
   \<exists>before' best after'.
     tried @ os = before' @ best # after'
     \<and> (\<forall>p \<in> set before'. levenshteinDistance ca (trim (toLowerCase (otext best)))
                             < levenshteinDistance ca (trim (toLowerCase (otext p))))
     \<and> (\<forall>p \<in> set after'. levenshteinDistance ca (trim (toLowerCase (otext best)))
                            \<le> levenshteinDistance ca (trim (toLowerCase (otext p))))
     \<and> fuzzyLoop ca os (Some b, enat (levenshteinDistance ca (trim (toLowerCase (otext b)))))
         = (Some best, enat (levenshteinDistance ca (trim (toLowerCase (otext best)))))"
proof (induction os arbitrary: tried before b after)
  case Nil
  then show ?case by auto
next
  case (Cons x os)
  let ?d = "\<lambda>p. levenshteinDistance ca (trim (toLowerCase (otext p)))"
  show ?case
  proof (cases "?d x < ?d b")
    case True
    have "tried @ [x] = tried @ x # []" by simp
    moreover have "\<forall>p \<in> set tried. ?d x < ?d p"
      using True Cons.prems by fastforce
    moreover have "\<forall>p \<in> set []. ?d x \<le> ?d p" by simp
    ultimately obtain before' best after' where
      "(tried @ [x]) @ os = before' @ best # after'"
      "\<forall>p \<in> set before'. ?d best < ?d p" "\<forall>p \<in> set after'. ?d best \<le> ?d p"
      "fuzzyLoop ca os (Some x, enat (?d x)) = (Some best, enat (?d best))"
      using Cons.IH [of "tried @ [x]" tried x "[]"] by blast
    with True show ?thesis by (intro exI [of _ before'] exI [of _ best] exI [of _ after']) simp
  next
    case False
    have "tried @ [x] = before @ b # (after @ [x])" using Cons.prems(1) by simp
    moreover have "\<forall>p \<in> set (after @ [x]). ?d b \<le> ?d p"
      using False Cons.prems(3) by auto
    ultimately obtain before' best after' where
      "(tried @ [x]) @ os = before' @ best # after'"
      "\<forall>p \<in> set before'. ?d best < ?d p" "\<forall>p \<in> set after'. ?d best \<le> ?d p"
      "fuzzyLoop ca os (Some b, enat (?d b)) = (Some best, enat (?d best))"
      using Cons.IH [of "tried @ [x]" before b "after @ [x]"] Cons.prems(2) by blast
    with False show ?thesis by (intro exI [of _ before'] exI [of _ best] exI [of _ after']) simp
  qed
qed

lemma fuzzyLoop_first_minimum:
  "opts \<noteq> [] \<Longrightarrow>
   \<exists>before best after.
     opts = before @ best # after
     \<and> (\<forall>p \<in> set before. levenshteinDistance ca (trim (toLowerCase (otext best)))
                            < levenshteinDistance ca (trim (toLowerCase (otext p))))
     \<and> (\<forall>p \<in> set after. levenshteinDistance ca (trim (toLowerCase (otext best)))
                           \<le> levenshteinDistance ca (trim (toLowerCase (otext p))))
     \<and> fuzzyLoop ca opts (None, \<infinity>)
         = (Some best, enat (levenshteinDistance ca (trim (toLowerCase (otext best)))))"
proof -
  assume "opts \<noteq> []"
  then obtain x os where opts: "opts = x # os" by (cases opts) auto
  have "[x] = [] @ x # []" by simp
  from fuzzyLoop_invariant [OF this, of ca os] show ?thesis
    unfolding opts by simp
qed

lemma fuzzy_clean_examples:
  "trim (toLowerCase ''Photosynthesis'') = ''photosynthesis''"
  "trim (toLowerCase ''Fotosynthesis'') = ''fotosynthesis''"
  "trim (toLowerCase ''Cats'') = ''cats''"
  "trim (toLowerCase ''xy'') = ''xy''"
  "trim (toLowerCase ''ab'') = ''ab''"
  "trim (toLowerCase ''ab          '') = ''ab''"
  "trim (toLowerCase ''xy          '') = ''xy''"
  by (simp_all add: char_eval)

lemma fuzzy_lev_examples:
  "levenshteinDistance ''fotosynthesis'' ''photosynthesis'' = 2"
  "levenshteinDistance ''cats'' ''photosynthesis'' = 12"
  "levenshteinDistance ''xy'' ''ab'' = 2"
  "levenshteinDistance ''kitten'' ''sitting'' = 3"
  by (simp_all add: levenshteinDistance_def)

lemma fuzzy_tiers_examples:
  "exactTier [plainOption ''Photosynthesis''] ''Fotosynthesis'' = None"
  "partialTier [plainOption ''Photosynthesis''] ''Fotosynthesis'' = None"
  "letterTier [plainOption ''Photosynthesis''] ''Fotosynthesis'' = None"
  "exactTier [plainOption ''Photosynthesis''] ''Cats'' = None"
  "partialTier [plainOption ''Photosynthesis''] ''Cats'' = None"
  "letterTier [plainOption ''Photosynthesis''] ''Cats'' = None"
  by (simp_all add: exactTier_def partialTier_def letterTier_def letterMatch_def plainOption_def
      fuzzy_clean_examples isSep_def isWhiteSpace_def)

lemma fuzzy_fuzzyTier_examples:
  "fuzzyTier [plainOption ''Photosynthesis''] ''Fotosynthesis'' = Some (plainOption ''Photosynthesis'')"
  "fuzzyTier [plainOption ''Photosynthesis''] ''Cats'' = None"
  by (simp_all add: fuzzyTier_def belowThreshold_def fuzzy_clean_examples fuzzy_lev_examples
      plainOption_def)

text \<open>
  The fuzzy tier as the source has it. For a list of options that is not empty and an
  answer that the exact, substring and letter tiers do not resolve, \<open>findMatchingOption\<close>
  takes the first option whose lower-cased, trimmed text is nearest to the lower-cased,
  trimmed answer, and \<open>levenshteinDistance\<close> is the least number of insertions, deletions
  and substitutions of single characters that turn one string into the other. The
  threshold of the source is 0.4 times the larger of the length of the normalised answer
  and the length of the option's text before it is normalised.
\<close>

lemma fuzzy_tier_as_written:
  "(opts \<noteq> [] \<and> exactTier opts ans = None \<and> partialTier opts ans = None
      \<and> letterTier opts ans = None \<longrightarrow>
     (\<exists>before best after.
        opts = before @ best # after
        \<and> (\<forall>p \<in> set before.
              levenshteinDistance (trim (toLowerCase ans)) (trim (toLowerCase (otext best)))
              < levenshteinDistance (trim (toLowerCase ans)) (trim (toLowerCase (otext p))))
        \<and> (\<forall>p \<in> set after.
              levenshteinDistance (trim (toLowerCase ans)) (trim (toLowerCase (otext best)))
              \<le> levenshteinDistance (trim (toLowerCase ans)) (trim (toLowerCase (otext p))))
        \<and> findMatchingOptionTier opts ans
            = (if real (levenshteinDistance (trim (toLowerCase ans)) (trim (toLowerCase (otext best))))
                  < 0.4 * real (max (length (trim (toLowerCase ans))) (length (otext best)))
               then Some (Fuzzy, best) else None)))
   \<and> edits a b (levenshteinDistance a b)
   \<and> (\<forall>n. edits a b n \<longrightarrow> levenshteinDistance a b \<le> n)"
proof (intro conjI impI)
  assume a: "opts \<noteq> [] \<and> exactTier opts ans = None \<and> partialTier opts ans = None
      \<and> letterTier opts ans = None"
  let ?ca = "trim (toLowerCase ans)"
  from a obtain before best after where
    split: "opts = before @ best # after"
    and lt: "\<forall>p \<in> set before. levenshteinDistance ?ca (trim (toLowerCase (otext best)))
                            < levenshteinDistance ?ca (trim (toLowerCase (otext p)))"
    and le: "\<forall>p \<in> set after. levenshteinDistance ?ca (trim (toLowerCase (otext best)))
                           \<le> levenshteinDistance ?ca (trim (toLowerCase (otext p)))"
    and loop: "fuzzyLoop ?ca opts (None, \<infinity>)
         = (Some best, enat (levenshteinDistance ?ca (trim (toLowerCase (otext best)))))"
    using fuzzyLoop_first_minimum [of opts ?ca] by blast
  have "fuzzyTier opts ans
        = (if real (levenshteinDistance ?ca (trim (toLowerCase (otext best))))
                  < 0.4 * real (max (length ?ca) (length (otext best)))
           then Some best else None)"
    by (simp add: fuzzyTier_def loop belowThreshold_real)
  then have "findMatchingOptionTier opts ans
            = (if real (levenshteinDistance ?ca (trim (toLowerCase (otext best))))
                  < 0.4 * real (max (length ?ca) (length (otext best)))
               then Some (Fuzzy, best) else None)"
    using a by (simp add: findMatchingOptionTier_def)
  with split lt le show "\<exists>before best after.
        opts = before @ best # after
        \<and> (\<forall>p \<in> set before.
              levenshteinDistance ?ca (trim (toLowerCase (otext best)))
              < levenshteinDistance ?ca (trim (toLowerCase (otext p))))
        \<and> (\<forall>p \<in> set after.
              levenshteinDistance ?ca (trim (toLowerCase (otext best)))
              \<le> levenshteinDistance ?ca (trim (toLowerCase (otext p))))
        \<and> findMatchingOptionTier opts ans
            = (if real (levenshteinDistance ?ca (trim (toLowerCase (otext best))))
                  < 0.4 * real (max (length ?ca) (length (otext best)))
               then Some (Fuzzy, best) else None)"
    by blast
next
  show "edits a b (levenshteinDistance a b)"
    using levenshteinDistance_least by blast
  show "\<forall>n. edits a b n \<longrightarrow> levenshteinDistance a b \<le> n"
    using levenshteinDistance_least by blast
qed

lemma fuzzy_tier_as_written_examples:
  "[plainOption ''Photosynthesis''] \<noteq> []
   \<and> exactTier [plainOption ''Photosynthesis''] ''Fotosynthesis'' = None
   \<and> partialTier [plainOption ''Photosynthesis''] ''Fotosynthesis'' = None
   \<and> letterTier [plainOption ''Photosynthesis''] ''Fotosynthesis'' = None
   \<and> findMatchingOptionTier [plainOption ''Photosynthesis''] ''Fotosynthesis''
       = Some (Fuzzy, plainOption ''Photosynthesis'')
   \<and> findMatchingOptionTier [plainOption ''Photosynthesis''] ''Cats'' = None
   \<and> edits ''kitten'' ''sitting'' 3"
proof -
  have "findMatchingOptionTier [plainOption ''Photosynthesis''] ''Fotosynthesis''
       = Some (Fuzzy, plainOption ''Photosynthesis'')"
    by (simp add: findMatchingOptionTier_def fuzzy_tiers_examples fuzzy_fuzzyTier_examples)
  moreover have "findMatchingOptionTier [plainOption ''Photosynthesis''] ''Cats'' = None"
    by (simp add: findMatchingOptionTier_def fuzzy_tiers_examples fuzzy_fuzzyTier_examples)
  moreover have "edits ''kitten'' ''sitting'' 3"
    using fuzzy_tier_as_written [of "[plainOption ''Photosynthesis'']" "''Fotosynthesis''"
        "''kitten''" "''sitting''"]
    by (simp add: fuzzy_lev_examples)
  ultimately show ?thesis by (simp add: fuzzy_tiers_examples)
qed

lemma london_examples:
  "trim (toLowerCase ''London'') = ''london''"
  "trim (toLowerCase ''     Paris      '') = ''paris''"
  "trim (toLowerCase ''      Rome      '') = ''rome''"
  "trim (toLowerCase ''Paris'') = ''paris''"
  "trim (toLowerCase ''Rome'') = ''rome''"
  "levenshteinDistance ''london'' ''paris'' = 6"
  "levenshteinDistance ''london'' ''rome'' = 5"
  by (simp_all add: char_eval levenshteinDistance_def)

text \<open>
  C4. The threshold of the claim is 0.4 times the larger length of the two strings that
  are compared. The source takes the length of the option's text before trimming, so
  white space around an option's text raises the threshold: with the option texts padded
  to 16 characters the answer \<open>London\<close> is resolved to the option \<open>Rome\<close>, at distance 5, which is
  not below 0.4 times 6; with the same options unpadded it is resolved to none.
\<close>

theorem fuzzy_threshold_counts_padding:
  "findMatchingOptionTier [plainOption ''     Paris      '', plainOption ''      Rome      '']
      ''London'' = Some (Fuzzy, plainOption ''      Rome      '')
   \<and> levenshteinDistance (trim (toLowerCase ''London'')) (trim (toLowerCase ''      Rome      '')) = 5
   \<and> max (length (trim (toLowerCase ''London''))) (length (trim (toLowerCase ''      Rome      ''))) = 6
   \<and> \<not> (5 :: real) < 0.4 * 6
   \<and> findMatchingOptionTier [plainOption ''Paris'', plainOption ''Rome''] ''London'' = None"
  by (simp add: findMatchingOptionTier_def exactTier_def partialTier_def letterTier_def
      letterMatch_def fuzzyTier_def belowThreshold_def london_examples plainOption_def
      isSep_def isWhiteSpace_def)

end
